theory Spec2Isabelle
  imports Main "HOL-Library.Word"
begin

section \<open>Python errors\<close>

text \<open>
  Every exception the modelled code can raise is a value; a fallible function returns
  \<open>pyerror + 'a\<close> with \<open>Inl\<close> for the raised exception.  The string is the constant part
  of the message.  \<open>RecursionError\<close> is what Python raises when the call stack is exhausted;
  the recursive methods of the schema take the remaining stack depth as an argument.
\<close>

datatype pyerror =
    IndexError string
  | ValueError string
  | TypeError string
  | KeyError
  | AssertionError string
  | ZeroDivisionError
  | RecursionError

section \<open>oamap/proxy.py: the list view\<close>

text \<open>
  A \<open>ListProxy\<close> holds \<open>_arrays\<close>, \<open>_start\<close>, \<open>_stop\<close> and \<open>_step\<close>.  The arrays are only
  handed on to the content class, so the model keeps the three integers and takes the
  content class \<open>cls._content(arrays, index=i)\<close> as a function of the position.
\<close>

record ListProxy =
  v_start :: int
  v_stop :: int
  v_step :: int

definition ListProxy_slice :: "int \<Rightarrow> int \<Rightarrow> int \<Rightarrow> ListProxy" where
  "ListProxy_slice start stop step = \<lparr>v_start = start, v_stop = stop, v_step = step\<rparr>"

text \<open>
  \<open>__len__\<close> returns \<open>(self._stop - self._start) // self._step\<close>; the builtin \<open>len\<close>
  through which \<open>__getitem__\<close> calls it raises \<open>ValueError\<close> on a negative result.
\<close>

definition ListProxy_len :: "ListProxy \<Rightarrow> pyerror + int" where
  "ListProxy_len v =
     (if v_step v = 0 then Inl ZeroDivisionError
      else let n = (v_stop v - v_start v) div v_step v
           in if n < 0 then Inl (ValueError ''__len__() should return >= 0'') else Inr n)"

datatype pyindex = Slice "int option" "int option" "int option" | Index int

datatype 'a item = View ListProxy | Elem 'a

definition ListProxy_getitem ::
  "(int \<Rightarrow> pyerror + 'a) \<Rightarrow> ListProxy \<Rightarrow> pyindex \<Rightarrow> pyerror + 'a item" where
  "ListProxy_getitem content v index =
     (case index of
        Slice istart istop istep \<Rightarrow>
          (case ListProxy_len v of
             Inl e \<Rightarrow> Inl e
           | Inr lenself \<Rightarrow>
               let start = (case istart of None \<Rightarrow> 0 | Some s \<Rightarrow> s);
                   stop = (case istop of None \<Rightarrow> lenself | Some s \<Rightarrow> s);
                   step = (case istep of None \<Rightarrow> 1 | Some s \<Rightarrow> s);
                   start = min lenself (max 0 start);
                   stop = min lenself (max 0 stop);
                   stop = (if stop < start then start else stop)
               in if step = 0 then Inl (ValueError ''slice step cannot be zero'')
                  else Inr (View (ListProxy_slice (v_start v + v_step v * start)
                                    (v_start v + v_step v * stop) (v_step v * step))))
      | Index i \<Rightarrow>
          (case ListProxy_len v of
             Inl e \<Rightarrow> Inl e
           | Inr lenself \<Rightarrow>
               let normalindex = (if i \<ge> 0 then i else i + lenself)
               in if \<not> (0 \<le> normalindex \<and> normalindex < lenself)
                  then Inl (IndexError ''index {0} is out of bounds for size {1}'')
                  else map_sum id Elem (content (v_start v + v_step v * normalindex))))"

text \<open>Python's clamping of a slice bound to \<open>[0, n]\<close>, as \<open>min(lenself, max(0, x))\<close>.\<close>

definition clamp_bound :: "int \<Rightarrow> int \<Rightarrow> int" where
  "clamp_bound n x = min n (max 0 x)"

section \<open>numpy arrays\<close>

text \<open>
  A one-dimensional array is the list of its elements; \<open>arr_mask\<close> is the mask of a
  \<open>numpy.ma.MaskedArray\<close> (\<open>True\<close> marks an invalid row) and \<open>None\<close> for a plain
  \<open>ndarray\<close>.  The other fields are what \<open>_resolved_check\<close> inspects: whether the dtype is
  an integer type, \<open>len(array.shape)\<close>, and whether the array is a \<open>numpy.recarray\<close>.
\<close>

record ndarray =
  arr_data :: "int list"
  arr_mask :: "bool list option"
  arr_integer :: bool
  arr_ndim :: nat
  arr_record :: bool

text \<open>\<open>a[i]\<close> on a sequence: a negative index counts from the end, out of range raises.\<close>

definition getitem :: "'a list \<Rightarrow> int \<Rightarrow> pyerror + 'a" where
  "getitem xs i =
     (let n = int (length xs); j = (if i < 0 then i + n else i)
      in if 0 \<le> j \<and> j < n then Inr (xs ! nat j) else Inl (IndexError ''index out of range''))"

text \<open>The value of an integer after a cast to \<open>numpy.int64\<close> (two's complement wrap-around).\<close>

definition int64 :: "int \<Rightarrow> int" where
  "int64 x = (x + 2 ^ 63) mod 2 ^ 64 - 2 ^ 63"

definition row_masked :: "ndarray \<Rightarrow> nat \<Rightarrow> bool" where
  "row_masked a i = (case arr_mask a of None \<Rightarrow> False | Some m \<Rightarrow> i < length m \<and> m ! i)"

text \<open>\<open>MaskedArray.filled(v)\<close>: the data with \<open>v\<close> at the masked rows (the data itself for a plain array).\<close>

definition filled :: "int \<Rightarrow> ndarray \<Rightarrow> int list" where
  "filled v a = map (\<lambda>i. if row_masked a i then v else arr_data a ! i) [0..<length (arr_data a)]"

text \<open>
  \<open>countarray.cumsum(out=offsetarray[1:])\<close> with an \<open>int64\<close> output: the running sums,
  each wrapped to 64 bits.  For a masked array numpy sums \<open>filled(0)\<close>.
\<close>

fun cumsum_from :: "int \<Rightarrow> int list \<Rightarrow> int list" where
  "cumsum_from acc [] = []"
| "cumsum_from acc (x # xs) = int64 (acc + x) # cumsum_from (int64 (acc + x)) xs"

definition cumsum :: "ndarray \<Rightarrow> int list" where
  "cumsum a = cumsum_from 0 (filled 0 a)"

text \<open>
  \<open>tagarray == tag\<close> as a boolean index.  On a masked array the comparison is \<open>False\<close>
  at a masked row (numpy.ma compares a masked element unequal to an unmasked scalar).
\<close>

definition eq_scalar :: "ndarray \<Rightarrow> int \<Rightarrow> bool list" where
  "eq_scalar a tag = map (\<lambda>i. \<not> row_masked a i \<and> arr_data a ! i = tag) [0..<length (arr_data a)]"

text \<open>\<open>matches.sum()\<close>: the number of \<open>True\<close> entries.\<close>

definition count_true :: "bool list \<Rightarrow> nat" where
  "count_true ms = length (filter id ms)"

text \<open>
  \<open>numpy.linspace(0, n - 1, n, dtype=numpy.int64)\<close>: the integers \<open>0, 1, ..., n - 1\<close>
  (empty for \<open>n = 0\<close>).
\<close>

definition linspace0 :: "nat \<Rightarrow> int list" where
  "linspace0 n = map int [0..<n]"

text \<open>
  \<open>a[matches] = values\<close>: the values are written, in order, at the rows where \<open>matches\<close>
  is \<open>True\<close>.  numpy raises when the number of values differs from the number of such
  rows; every call below passes exactly \<open>matches.sum()\<close> values.
\<close>

fun setitem_bool :: "int list \<Rightarrow> bool list \<Rightarrow> int list \<Rightarrow> int list" where
  "setitem_bool (x # xs) (m # ms) vs =
     (if m then (case vs of v # vs' \<Rightarrow> v # setitem_bool xs ms vs' | [] \<Rightarrow> x # setitem_bool xs ms [])
      else x # setitem_bool xs ms vs)"
| "setitem_bool xs ms vs = xs"

text \<open>
  \<open>numpy.empty(n, dtype=numpy.int64)\<close> is uninitialized memory: its content is whatever
  the function \<open>uninit\<close>, a parameter of the model, says.
\<close>

definition numpy_empty :: "(nat \<Rightarrow> int) \<Rightarrow> nat \<Rightarrow> int list" where
  "numpy_empty uninit n = map uninit [0..<n]"

section \<open>arrowed/schema.py: array references and their resolution\<close>

text \<open>
  An array reference of a schema node is an array, a callable, or a key of the source.
  A callable is given by its \<open>__code__.co_argcount\<close> and by what calling it with the
  arguments \<open>_resolved\<close> passes for that arity returns or raises.
\<close>

datatype aref = Array ndarray | Callable nat "pyerror + ndarray" | Key string

type_synonym source = "string \<rightharpoonup> ndarray"

definition ObjectArrayMapping_toint64 :: "ndarray \<Rightarrow> ndarray" where
  "ObjectArrayMapping_toint64 array = array\<lparr>arr_data := map int64 (arr_data array)\<rparr>"

definition ObjectArrayMapping_resolved_check ::
  "ndarray \<Rightarrow> string \<Rightarrow> bool \<Rightarrow> (ndarray \<Rightarrow> bool) \<Rightarrow> pyerror + ndarray" where
  "ObjectArrayMapping_resolved_check array message masked extracheck =
     (let extracheck2 = (if masked then (\<lambda>x. arr_mask x \<noteq> None) else (\<lambda>x. arr_mask x = None))
      in if \<not> arr_record array \<and> arr_ndim array = 1 \<and> extracheck array \<and> extracheck2 array
         then Inr array else Inl (AssertionError message))"

fun ObjectArrayMapping_resolved ::
  "aref \<Rightarrow> source \<Rightarrow> string \<Rightarrow> bool \<Rightarrow> (ndarray \<Rightarrow> bool) \<Rightarrow> pyerror + ndarray" where
  "ObjectArrayMapping_resolved (Array obj) source message masked extracheck =
     ObjectArrayMapping_resolved_check obj message masked extracheck"
| "ObjectArrayMapping_resolved (Callable argcount result) source message masked extracheck =
     (case result of
        Inl e \<Rightarrow> Inl e
      | Inr a \<Rightarrow> ObjectArrayMapping_resolved_check a message masked extracheck)"
| "ObjectArrayMapping_resolved (Key obj) source message masked extracheck =
     (case source obj of
        Some a \<Rightarrow> ObjectArrayMapping_resolved_check a message masked extracheck
      | None \<Rightarrow> Inl (ValueError ''array cannot be found for key {0}''))"

text \<open>\<open>a[:-1]\<close> and \<open>a[1:]\<close>; slicing a masked array slices its mask with it.\<close>

definition slice_init :: "ndarray \<Rightarrow> ndarray" where
  "slice_init a = a\<lparr>arr_data := butlast (arr_data a), arr_mask := map_option butlast (arr_mask a)\<rparr>"

definition slice_tail :: "ndarray \<Rightarrow> ndarray" where
  "slice_tail a = a\<lparr>arr_data := tl (arr_data a), arr_mask := map_option tl (arr_mask a)\<rparr>"

text \<open>A plain one-dimensional \<open>int64\<close> array holding the given elements.\<close>

definition int64_array :: "int list \<Rightarrow> ndarray" where
  "int64_array xs = \<lparr>arr_data = xs, arr_mask = None, arr_integer = True, arr_ndim = 1, arr_record = False\<rparr>"

subsection \<open>The \<open>resolve\<close> closure of each node class\<close>

definition Primitive_resolve :: "aref \<Rightarrow> bool \<Rightarrow> source \<Rightarrow> pyerror + ndarray" where
  "Primitive_resolve array masked source =
     ObjectArrayMapping_resolved array source
       ''Primitive array must map to a one-dimensional, {0}, non-record array'' masked (\<lambda>x. True)"

definition ListCount_resolve :: "aref \<Rightarrow> bool \<Rightarrow> source \<Rightarrow> pyerror + ndarray \<times> ndarray" where
  "ListCount_resolve countarray masked source =
     (case ObjectArrayMapping_resolved countarray source
             ''ListCount countarray must map to a one-dimensional, {0}, non-record array of integers''
             masked arr_integer of
        Inl e \<Rightarrow> Inl e
      | Inr countarray \<Rightarrow>
          let offsetarray = int64_array (0 # cumsum countarray);
              startarray = slice_init offsetarray;
              endarray = slice_tail offsetarray;
              startarray = (if arr_mask countarray \<noteq> None
                            then startarray\<lparr>arr_mask := arr_mask countarray\<rparr> else startarray)
          in Inr (startarray, endarray))"

definition ListOffset_resolve :: "aref \<Rightarrow> bool \<Rightarrow> source \<Rightarrow> pyerror + ndarray \<times> ndarray" where
  "ListOffset_resolve offsetarray masked source =
     (case ObjectArrayMapping_resolved offsetarray source
             ''ListOffset offsetarray must map to a one-dimensional, {0}, non-record array of integers''
             masked arr_integer of
        Inl e \<Rightarrow> Inl e
      | Inr a \<Rightarrow>
          let offsetarray = ObjectArrayMapping_toint64 a
          in Inr (slice_init offsetarray, slice_tail offsetarray))"

text \<open>Both arrays are resolved from \<open>self.startarray\<close>: \<open>self.endarray\<close> is not read.\<close>

definition ListStartEnd_resolve :: "aref \<Rightarrow> aref \<Rightarrow> bool \<Rightarrow> source \<Rightarrow> pyerror + ndarray \<times> ndarray" where
  "ListStartEnd_resolve startarray endarray masked source =
     (case ObjectArrayMapping_resolved startarray source
             ''ListStartEnd startarray must map to a one-dimensional, {0}, non-record array of integers''
             masked arr_integer of
        Inl e \<Rightarrow> Inl e
      | Inr s \<Rightarrow>
          (case ObjectArrayMapping_resolved startarray source
                  ''ListStartEnd endarray must map to a one-dimensional, {0}, non-record array of integers''
                  masked arr_integer of
             Inl e \<Rightarrow> Inl e
           | Inr e \<Rightarrow> Inr (ObjectArrayMapping_toint64 s, ObjectArrayMapping_toint64 e)))"

text \<open>
  One pass per possible tag: the rows carrying that tag receive \<open>0, 1, 2, ...\<close> in row
  order.  A row whose tag is no possibility keeps what \<open>numpy.empty\<close> left there.
\<close>

definition UnionSparse_offsets :: "ndarray \<Rightarrow> nat \<Rightarrow> int list \<Rightarrow> int list" where
  "UnionSparse_offsets tagarray ncontents offsetarray =
     foldl (\<lambda>offsetarray tag.
              let matches = eq_scalar tagarray (int tag);
                  nummatches = count_true matches
              in setitem_bool offsetarray matches (linspace0 nummatches))
           offsetarray [0..<ncontents]"

definition UnionSparse_resolve ::
  "(nat \<Rightarrow> int) \<Rightarrow> aref \<Rightarrow> nat \<Rightarrow> bool \<Rightarrow> source \<Rightarrow> pyerror + ndarray \<times> ndarray" where
  "UnionSparse_resolve uninit tagarray ncontents masked source =
     (case ObjectArrayMapping_resolved tagarray source
             ''UnionSparse tagarray must map to a one-dimensional, {0}, non-record array of integers''
             masked arr_integer of
        Inl e \<Rightarrow> Inl e
      | Inr a \<Rightarrow>
          let tagarray = ObjectArrayMapping_toint64 a;
              offsetarray = numpy_empty uninit (length (arr_data tagarray))
          in Inr (tagarray, int64_array (UnionSparse_offsets tagarray ncontents offsetarray)))"

definition UnionSparseOffset_resolve ::
  "aref \<Rightarrow> aref \<Rightarrow> bool \<Rightarrow> source \<Rightarrow> pyerror + ndarray \<times> ndarray" where
  "UnionSparseOffset_resolve tagarray offsetarray masked source =
     (case ObjectArrayMapping_resolved tagarray source
             ''UnionSparseOffset tagarray must map to a one-dimensional, {0}, non-record array of integers''
             masked arr_integer of
        Inl e \<Rightarrow> Inl e
      | Inr t \<Rightarrow>
          (case ObjectArrayMapping_resolved offsetarray source
                  ''UnionSparseOffset offsetarray must map to a one-dimensional, {0}, non-record array of integers''
                  masked arr_integer of
             Inl e \<Rightarrow> Inl e
           | Inr off \<Rightarrow> Inr (ObjectArrayMapping_toint64 t, ObjectArrayMapping_toint64 off)))"

definition Pointer_resolve :: "aref \<Rightarrow> bool \<Rightarrow> source \<Rightarrow> pyerror + ndarray" where
  "Pointer_resolve indexarray masked source =
     map_sum id ObjectArrayMapping_toint64
       (ObjectArrayMapping_resolved indexarray source
          ''Pointer indexarray must map to a one-dimensional, {0}, non-record array of integers''
          masked arr_integer)"

section \<open>arrowed/schema.py: the schema nodes\<close>

text \<open>
  Schema nodes are objects with an identity, and a pointer's target may contain the
  pointer, so the nodes live in a heap and refer to their children by identity (a number).
  \<open>'r\<close> is the type of the array fields: \<open>aref\<close> in a schema as built, \<open>ndarray\<close> in
  a schema returned by \<open>resolved\<close> with \<open>lazy=False\<close>, the only mode modelled.
  The constructor arguments are those of \<open>__init__\<close>, in its order.
\<close>

datatype 'r node =
    Primitive 'r bool "nat option"
  | ListCount 'r nat bool "nat option"
  | ListOffset 'r nat bool "nat option"
  | ListStartEnd 'r 'r nat bool "nat option"
  | Record "(string \<times> nat) list" "nat option" string
  | Tuple "nat list" "nat option"
  | UnionSparse 'r "nat list" bool "nat option"
  | UnionSparseOffset 'r 'r "nat list" bool "nat option"
  | Pointer 'r nat bool "nat option"

subsection \<open>\<open>resolved\<close>\<close>

text \<open>
  \<open>resolved\<close> reads the schema, a function from identities to nodes, and builds new
  nodes: \<open>built\<close> lists them, and a new node's identity is its position there.
  \<open>the_memo\<close> is the dictionary \<open>_memo\<close>, from \<open>id\<close> of a schema node to \<open>None\<close> (the
  placeholder of \<open>_recursion_check\<close>) or to the node built for it.
\<close>

record rstate =
  the_memo :: "nat \<rightharpoonup> nat option"
  built :: "ndarray node list"

definition recursion_check :: "nat \<Rightarrow> rstate \<Rightarrow> pyerror + rstate" where
  "recursion_check self s =
     (if self \<in> dom (the_memo s)
      then Inl (TypeError ''a container type cannot be included more than once in the same nested tree'')
      else Inr (s\<lparr>the_memo := (the_memo s)(self \<mapsto> None)\<rparr>))"

text \<open>\<open>_memo[id(self)] = C(...); return _memo[id(self)]\<close>\<close>

definition memoize :: "nat \<Rightarrow> ndarray node \<Rightarrow> rstate \<Rightarrow> nat \<times> rstate" where
  "memoize self n s =
     (length (built s), s\<lparr>the_memo := (the_memo s)(self \<mapsto> Some (length (built s))), built := built s @ [n]\<rparr>)"

text \<open>
  \<open>resolved_all\<close> is the comprehension over the children of a record, tuple or union;
  \<open>rec\<close> is the call \<open>x.resolved(source, lazy, _memo)\<close> on a child.
\<close>

fun resolved_all ::
  "(nat \<Rightarrow> rstate \<Rightarrow> pyerror + nat \<times> rstate) \<Rightarrow> nat list \<Rightarrow> rstate \<Rightarrow> pyerror + nat list \<times> rstate" where
  "resolved_all rec [] s = Inr ([], s)"
| "resolved_all rec (x # xs) s =
     (case rec x s of
        Inl e \<Rightarrow> Inl e
      | Inr (c, s1) \<Rightarrow>
          (case resolved_all rec xs s1 of
             Inl e \<Rightarrow> Inl e
           | Inr (cs, s2) \<Rightarrow> Inr (c # cs, s2)))"

text \<open>
  The tail shared by the three list classes: after \<open>_recursion_check\<close> and \<open>resolve()\<close>,
  resolve the contents and record the new \<open>ListStartEnd\<close>.
\<close>

definition List_resolved ::
  "(nat \<Rightarrow> rstate \<Rightarrow> pyerror + nat \<times> rstate) \<Rightarrow> pyerror + ndarray \<times> ndarray \<Rightarrow> nat \<Rightarrow> bool \<Rightarrow> nat \<Rightarrow> rstate
     \<Rightarrow> pyerror + nat \<times> rstate" where
  "List_resolved rec resolve contents masked self s =
     (case recursion_check self s of
        Inl e \<Rightarrow> Inl e
      | Inr s1 \<Rightarrow>
          (case resolve of
             Inl e \<Rightarrow> Inl e
           | Inr (startarray, endarray) \<Rightarrow>
               (case rec contents s1 of
                  Inl e \<Rightarrow> Inl e
                | Inr (c, s2) \<Rightarrow>
                    Inr (memoize self (ListStartEnd startarray endarray c masked (Some self)) s2))))"

definition Record_resolved ::
  "(nat \<Rightarrow> rstate \<Rightarrow> pyerror + nat \<times> rstate) \<Rightarrow> (string \<times> nat) list \<Rightarrow> nat \<Rightarrow> rstate
     \<Rightarrow> pyerror + nat \<times> rstate" where
  "Record_resolved rec contents self s =
     (case recursion_check self s of
        Inl e \<Rightarrow> Inl e
      | Inr s1 \<Rightarrow>
          (case resolved_all rec (map snd contents) s1 of
             Inl e \<Rightarrow> Inl e
           | Inr (cs, s2) \<Rightarrow>
               Inr (memoize self (Record (zip (map fst contents) cs) (Some self) ''Record-0'') s2)))"

definition Tuple_resolved ::
  "(nat \<Rightarrow> rstate \<Rightarrow> pyerror + nat \<times> rstate) \<Rightarrow> nat list \<Rightarrow> nat \<Rightarrow> rstate
     \<Rightarrow> pyerror + nat \<times> rstate" where
  "Tuple_resolved rec contents self s =
     (case recursion_check self s of
        Inl e \<Rightarrow> Inl e
      | Inr s1 \<Rightarrow>
          (case resolved_all rec contents s1 of
             Inl e \<Rightarrow> Inl e
           | Inr (cs, s2) \<Rightarrow> Inr (memoize self (Tuple cs (Some self)) s2)))"

text \<open>The tail shared by the two union classes; both build a \<open>UnionSparseOffset\<close>.\<close>

definition Union_resolved ::
  "(nat \<Rightarrow> rstate \<Rightarrow> pyerror + nat \<times> rstate) \<Rightarrow> pyerror + ndarray \<times> ndarray \<Rightarrow> nat list \<Rightarrow> bool \<Rightarrow> nat \<Rightarrow> rstate
     \<Rightarrow> pyerror + nat \<times> rstate" where
  "Union_resolved rec resolve contents masked self s =
     (case recursion_check self s of
        Inl e \<Rightarrow> Inl e
      | Inr s1 \<Rightarrow>
          (case resolve of
             Inl e \<Rightarrow> Inl e
           | Inr (tagarray, offsetarray) \<Rightarrow>
               (case resolved_all rec contents s1 of
                  Inl e \<Rightarrow> Inl e
                | Inr (cs, s2) \<Rightarrow>
                    Inr (memoize self (UnionSparseOffset tagarray offsetarray cs masked (Some self)) s2))))"

text \<open>
  A pointer makes no \<open>_recursion_check\<close>.  It resolves its target unless the target's
  identity is a key of \<open>_memo\<close>, and then reads \<open>_memo[id(self.target)]\<close>: a \<open>KeyError\<close> when
  the target has not recorded itself (a \<open>Primitive\<close> never does), and the placeholder
  \<open>None\<close> when the target is still being resolved, on which \<open>Pointer.__init__\<close> asserts.
\<close>

definition Pointer_resolved ::
  "(nat \<Rightarrow> rstate \<Rightarrow> pyerror + nat \<times> rstate) \<Rightarrow> pyerror + ndarray \<Rightarrow> nat \<Rightarrow> bool \<Rightarrow> nat \<Rightarrow> rstate
     \<Rightarrow> pyerror + nat \<times> rstate" where
  "Pointer_resolved rec resolve target masked self s =
     (case (if target \<notin> dom (the_memo s) then map_sum id snd (rec target s) else Inr s) of
        Inl e \<Rightarrow> Inl e
      | Inr s1 \<Rightarrow>
          (case resolve of
             Inl e \<Rightarrow> Inl e
           | Inr indexarray \<Rightarrow>
               (case the_memo s1 target of
                  None \<Rightarrow> Inl KeyError
                | Some None \<Rightarrow> Inl (AssertionError ''target must be an ObjectArrayMapping'')
                | Some (Some t) \<Rightarrow> Inr (memoize self (Pointer indexarray t masked (Some self)) s1))))"

text \<open>The method \<open>resolved\<close> of the class of the node \<open>self\<close>.\<close>

definition resolved_node ::
  "(nat \<Rightarrow> rstate \<Rightarrow> pyerror + nat \<times> rstate) \<Rightarrow> (nat \<Rightarrow> int) \<Rightarrow> source \<Rightarrow> aref node \<Rightarrow> nat \<Rightarrow> rstate
     \<Rightarrow> pyerror + nat \<times> rstate" where
  "resolved_node rec uninit source node self s =
     (case node of
        Primitive array masked base \<Rightarrow>
          (case Primitive_resolve array masked source of
             Inl e \<Rightarrow> Inl e
           | Inr a \<Rightarrow> Inr (length (built s), s\<lparr>built := built s @ [Primitive a masked (Some self)]\<rparr>))
      | ListCount countarray contents masked base \<Rightarrow>
          List_resolved rec (ListCount_resolve countarray masked source) contents masked self s
      | ListOffset offsetarray contents masked base \<Rightarrow>
          List_resolved rec (ListOffset_resolve offsetarray masked source) contents masked self s
      | ListStartEnd startarray endarray contents masked base \<Rightarrow>
          List_resolved rec (ListStartEnd_resolve startarray endarray masked source) contents masked self s
      | Record contents base name \<Rightarrow> Record_resolved rec contents self s
      | Tuple contents base \<Rightarrow> Tuple_resolved rec contents self s
      | UnionSparse tagarray contents masked base \<Rightarrow>
          Union_resolved rec (UnionSparse_resolve uninit tagarray (length contents) masked source)
            contents masked self s
      | UnionSparseOffset tagarray offsetarray contents masked base \<Rightarrow>
          Union_resolved rec (UnionSparseOffset_resolve tagarray offsetarray masked source)
            contents masked self s
      | Pointer indexarray target masked base \<Rightarrow>
          Pointer_resolved rec (Pointer_resolve indexarray masked source) target masked self s)"

text \<open>
  The first argument is the number of stack frames left; Python raises when none is.
\<close>

primrec resolved ::
  "nat \<Rightarrow> (nat \<Rightarrow> aref node) \<Rightarrow> (nat \<Rightarrow> int) \<Rightarrow> source \<Rightarrow> nat \<Rightarrow> rstate \<Rightarrow> pyerror + nat \<times> rstate" where
  "resolved 0 schema uninit source self s = Inl RecursionError"
| "resolved (Suc depth) schema uninit source self s =
     resolved_node (resolved depth schema uninit source) uninit source (schema self) self s"

section \<open>The running count of a tag\<close>


section \<open>arrowed/schema.py: \<open>hasany\<close> and \<open>projection\<close>\<close>

text \<open>
  \<open>hasany(others, _memo)\<close>: \<open>others\<close> is the set of the identities of the required nodes,
  \<open>memo\<close> the set \<open>_memo\<close> of identities.  \<open>rec x memo\<close> is the call
  \<open>x.hasany(others, _memo)\<close> on a child.
\<close>

text \<open>\<open>List.hasany\<close> and \<open>Pointer.hasany\<close>, after the test of \<open>self\<close>: one child.\<close>

definition hasany_child :: "(nat \<Rightarrow> nat set \<Rightarrow> pyerror + bool) \<Rightarrow> nat \<Rightarrow> nat set \<Rightarrow> pyerror + bool" where
  "hasany_child rec contents memo =
     (if contents \<notin> memo then rec contents (insert contents memo) else Inr False)"

text \<open>
  The loop of \<open>Record.hasany\<close>, \<open>Tuple.hasany\<close> and \<open>Union.hasany\<close>: it returns what the
  first child that is not in \<open>_memo\<close> answers.
\<close>

fun hasany_loop :: "(nat \<Rightarrow> nat set \<Rightarrow> pyerror + bool) \<Rightarrow> nat list \<Rightarrow> nat set \<Rightarrow> pyerror + bool" where
  "hasany_loop rec [] memo = Inr False"
| "hasany_loop rec (x # xs) memo =
     (if x \<notin> memo then rec x (insert x memo) else hasany_loop rec xs memo)"

definition hasany_node ::
  "(nat \<Rightarrow> nat set \<Rightarrow> pyerror + bool) \<Rightarrow> nat set \<Rightarrow> 'r node \<Rightarrow> nat \<Rightarrow> nat set \<Rightarrow> pyerror + bool" where
  "hasany_node rec others node self memo =
     (if self \<in> others then Inr True
      else (case node of
              Primitive array masked base \<Rightarrow> Inr False
            | ListCount countarray contents masked base \<Rightarrow> hasany_child rec contents memo
            | ListOffset offsetarray contents masked base \<Rightarrow> hasany_child rec contents memo
            | ListStartEnd startarray endarray contents masked base \<Rightarrow> hasany_child rec contents memo
            | Record contents base name \<Rightarrow> hasany_loop rec (map snd contents) memo
            | Tuple contents base \<Rightarrow> hasany_loop rec contents memo
            | UnionSparse tagarray contents masked base \<Rightarrow> hasany_loop rec contents memo
            | UnionSparseOffset tagarray offsetarray contents masked base \<Rightarrow> hasany_loop rec contents memo
            | Pointer indexarray target masked base \<Rightarrow> hasany_child rec target memo))"

primrec hasany :: "nat \<Rightarrow> (nat \<Rightarrow> 'r node) \<Rightarrow> nat set \<Rightarrow> nat \<Rightarrow> nat set \<Rightarrow> pyerror + bool" where
  "hasany 0 schema others self memo = Inl RecursionError"
| "hasany (Suc depth) schema others self memo =
     hasany_node (hasany depth schema others) others (schema self) self memo"

text \<open>
  \<open>projection\<close> builds new nodes beside the old ones, and a projected tree can be
  projected again, so old and new nodes share one heap: \<open>nodes\<close> maps an identity to its
  node, and \<open>next_id\<close> is the identity the next new object receives.
\<close>

record 'r heap =
  nodes :: "nat \<Rightarrow> 'r node"
  next_id :: nat

definition new :: "'r node \<Rightarrow> 'r heap \<Rightarrow> nat \<times> 'r heap" where
  "new n h = (next_id h, h\<lparr>nodes := (nodes h)(next_id h := n), next_id := Suc (next_id h)\<rparr>)"

type_synonym pmemo = "nat \<rightharpoonup> nat option"

type_synonym 'r projecting = "nat \<Rightarrow> 'r heap \<Rightarrow> pmemo \<Rightarrow> pyerror + nat option \<times> 'r heap \<times> pmemo"

text \<open>
  The four lines every container runs on a child \<open>x\<close>: unless \<open>id(x)\<close> is a key of
  \<open>_memo\<close>, store the placeholder \<open>None\<close>, project the child and store the result; then
  read \<open>_memo[id(x)]\<close>.
\<close>

definition projection_child :: "'r projecting \<Rightarrow> 'r projecting" where
  "projection_child rec x h memo =
     (case memo x of
        None \<Rightarrow>
          (case rec x h (memo(x \<mapsto> None)) of
             Inl e \<Rightarrow> Inl e
           | Inr (r, h1, memo1) \<Rightarrow> Inr (r, h1, memo1(x \<mapsto> r)))
      | Some content \<Rightarrow> Inr (content, h, memo))"

text \<open>The loop of a record: the fields whose projection is not \<open>None\<close>, in order.\<close>

fun projection_fields ::
  "'r projecting \<Rightarrow> (string \<times> nat) list \<Rightarrow> 'r heap \<Rightarrow> pmemo
     \<Rightarrow> pyerror + (string \<times> nat) list \<times> 'r heap \<times> pmemo" where
  "projection_fields rec [] h memo = Inr ([], h, memo)"
| "projection_fields rec ((n, x) # rest) h memo =
     (case projection_child rec x h memo of
        Inl e \<Rightarrow> Inl e
      | Inr (content, h1, memo1) \<Rightarrow>
          (case projection_fields rec rest h1 memo1 of
             Inl e \<Rightarrow> Inl e
           | Inr (contents, h2, memo2) \<Rightarrow>
               Inr ((case content of None \<Rightarrow> contents | Some c \<Rightarrow> (n, c) # contents), h2, memo2)))"

text \<open>The loop of a tuple or union.\<close>

fun projection_all ::
  "'r projecting \<Rightarrow> nat list \<Rightarrow> 'r heap \<Rightarrow> pmemo \<Rightarrow> pyerror + nat list \<times> 'r heap \<times> pmemo" where
  "projection_all rec [] h memo = Inr ([], h, memo)"
| "projection_all rec (x # rest) h memo =
     (case projection_child rec x h memo of
        Inl e \<Rightarrow> Inl e
      | Inr (content, h1, memo1) \<Rightarrow>
          (case projection_all rec rest h1 memo1 of
             Inl e \<Rightarrow> Inl e
           | Inr (contents, h2, memo2) \<Rightarrow>
               Inr ((case content of None \<Rightarrow> contents | Some c \<Rightarrow> c # contents), h2, memo2)))"

text \<open>
  A list or pointer keeps its own array when its child is pruned: the child becomes a
  bare \<open>Primitive\<close> of that array.  \<open>build c\<close> is the constructor call with the child \<open>c\<close>.
\<close>

definition projection_single ::
  "'r projecting \<Rightarrow> 'r \<Rightarrow> bool \<Rightarrow> (nat \<Rightarrow> 'r node) \<Rightarrow> 'r projecting" where
  "projection_single rec array masked build contents h memo =
     (case projection_child rec contents h memo of
        Inl e \<Rightarrow> Inl e
      | Inr (content, h1, memo1) \<Rightarrow>
          (case content of
             Some c \<Rightarrow> (case new (build c) h1 of (r, h2) \<Rightarrow> Inr (Some r, h2, memo1))
           | None \<Rightarrow>
               (case new (Primitive array masked None) h1 of
                  (c, h2) \<Rightarrow> (case new (build c) h2 of (r, h3) \<Rightarrow> Inr (Some r, h3, memo1)))))"

text \<open>A tuple or union with no surviving child is pruned.\<close>

definition projection_several ::
  "'r projecting \<Rightarrow> (nat list \<Rightarrow> 'r node) \<Rightarrow> nat list \<Rightarrow> 'r heap \<Rightarrow> pmemo
     \<Rightarrow> pyerror + nat option \<times> 'r heap \<times> pmemo" where
  "projection_several rec build contents h memo =
     (case projection_all rec contents h memo of
        Inl e \<Rightarrow> Inl e
      | Inr (cs, h1, memo1) \<Rightarrow>
          (if length cs > 0 then (case new (build cs) h1 of (r, h2) \<Rightarrow> Inr (Some r, h2, memo1))
           else Inr (None, h1, memo1)))"

definition Record_projection ::
  "'r projecting \<Rightarrow> nat \<Rightarrow> (string \<times> nat) list \<Rightarrow> 'r heap \<Rightarrow> pmemo
     \<Rightarrow> pyerror + nat option \<times> 'r heap \<times> pmemo" where
  "Record_projection rec self contents h memo =
     (case projection_fields rec contents h memo of
        Inl e \<Rightarrow> Inl e
      | Inr (cs, h1, memo1) \<Rightarrow>
          (if length cs > 0
           then (case new (Record cs (Some self) ''Record-0'') h1 of (r, h2) \<Rightarrow> Inr (Some r, h2, memo1))
           else Inr (None, h1, memo1)))"

text \<open>
  The method \<open>projection\<close> of the class of the node \<open>self\<close>; \<open>has\<close> is what
  \<open>self.hasany(required)\<close> returns or raises.
\<close>

definition projection_node ::
  "'r projecting \<Rightarrow> pyerror + bool \<Rightarrow> 'r node \<Rightarrow> 'r projecting" where
  "projection_node rec has node self h memo =
     (case has of
        Inl e \<Rightarrow> Inl e
      | Inr False \<Rightarrow> Inr (None, h, memo)
      | Inr True \<Rightarrow>
          (case node of
             Primitive array masked base \<Rightarrow>
               (case new (Primitive array masked (Some self)) h of (r, h1) \<Rightarrow> Inr (Some r, h1, memo))
           | ListCount countarray contents masked base \<Rightarrow>
               projection_single rec countarray masked
                 (\<lambda>c. ListCount countarray c masked (Some self)) contents h memo
           | ListOffset offsetarray contents masked base \<Rightarrow>
               projection_single rec offsetarray masked
                 (\<lambda>c. ListOffset offsetarray c masked (Some self)) contents h memo
           | ListStartEnd startarray endarray contents masked base \<Rightarrow>
               projection_single rec startarray masked
                 (\<lambda>c. ListStartEnd startarray endarray c masked (Some self)) contents h memo
           | Record contents base name \<Rightarrow> Record_projection rec self contents h memo
           | Tuple contents base \<Rightarrow>
               projection_several rec (\<lambda>cs. Tuple cs (Some self)) contents h memo
           | UnionSparse tagarray contents masked base \<Rightarrow>
               projection_several rec (\<lambda>cs. UnionSparse tagarray cs masked (Some self)) contents h memo
           | UnionSparseOffset tagarray offsetarray contents masked base \<Rightarrow>
               projection_several rec
                 (\<lambda>cs. UnionSparseOffset tagarray offsetarray cs masked (Some self)) contents h memo
           | Pointer indexarray target masked base \<Rightarrow>
               projection_single rec indexarray masked
                 (\<lambda>c. Pointer indexarray c masked (Some self)) target h memo))"

primrec projection :: "nat \<Rightarrow> nat set \<Rightarrow> 'r projecting" where
  "projection 0 required self h memo = Inl RecursionError"
| "projection (Suc depth) required self h memo =
     projection_node (projection depth required) (hasany depth (nodes h) required self {})
       (nodes h self) self h memo"

text \<open>The child nodes of a node: \<open>contents\<close>, or the \<open>target\<close> of a pointer.\<close>

fun children :: "'r node \<Rightarrow> nat list" where
  "children (Primitive array masked base) = []"
| "children (ListCount countarray contents masked base) = [contents]"
| "children (ListOffset offsetarray contents masked base) = [contents]"
| "children (ListStartEnd startarray endarray contents masked base) = [contents]"
| "children (Record contents base name) = map snd contents"
| "children (Tuple contents base) = contents"
| "children (UnionSparse tagarray contents masked base) = contents"
| "children (UnionSparseOffset tagarray offsetarray contents masked base) = contents"
| "children (Pointer indexarray target masked base) = [target]"

text \<open>
  The nodes built since the heap held \<open>n0\<close> objects have only such nodes as children, each
  built before its parent.
\<close>

definition fresh_closed :: "nat \<Rightarrow> 'r heap \<Rightarrow> bool" where
  "fresh_closed n0 h \<longleftrightarrow>
     n0 \<le> next_id h \<and>
     (\<forall>q. n0 \<le> q \<and> q < next_id h \<longrightarrow> (\<forall>c \<in> set (children (nodes h q)). n0 \<le> c \<and> c < q))"

text \<open>Every node recorded in \<open>_memo\<close> was built since the heap held \<open>n0\<close> objects.\<close>

definition memo_fresh :: "nat \<Rightarrow> 'r heap \<Rightarrow> pmemo \<Rightarrow> bool" where
  "memo_fresh n0 h memo \<longleftrightarrow> (\<forall>x v. memo x = Some (Some v) \<longrightarrow> n0 \<le> v \<and> v < next_id h)"

text \<open>
  What a projecting call keeps true: the nodes built stay closed, \<open>_memo\<close> records only
  nodes built since, no object disappears, and a returned node is one built since.
\<close>

definition preserves :: "nat \<Rightarrow> 'r projecting \<Rightarrow> bool" where
  "preserves n0 rec \<longleftrightarrow>
     (\<forall>x h memo r h' memo'.
        rec x h memo = Inr (r, h', memo') \<longrightarrow> fresh_closed n0 h \<longrightarrow> memo_fresh n0 h memo \<longrightarrow>
        fresh_closed n0 h' \<and> memo_fresh n0 h' memo' \<and> next_id h \<le> next_id h'
        \<and> (\<forall>p. r = Some p \<longrightarrow> n0 \<le> p \<and> p < next_id h'))"

section \<open>arrowed/schema.py: \<open>proxy\<close>\<close>

text \<open>
  What \<open>proxy(index)\<close> of a resolved node returns: \<open>None\<close>, an element of an array, or a
  view object that holds the schema node and the index (\<open>ListProxy(self, index)\<close>,
  \<open>self.proxyclass(self, index)\<close>, \<open>TupleProxy(self, index)\<close>).
\<close>

datatype pyvalue =
    PNone
  | PScalar int
  | PListProxy nat int
  | PRecordProxy nat int
  | PTupleProxy nat int

text \<open>\<open>getattr(array, "mask", None) is not None and array.mask[index]\<close>\<close>

definition masked_at :: "ndarray \<Rightarrow> int \<Rightarrow> pyerror + bool" where
  "masked_at array index =
     (case arr_mask array of None \<Rightarrow> Inr False | Some m \<Rightarrow> getitem m index)"

text \<open>
  \<open>rec x i\<close> is the call \<open>x.proxy(i)\<close> on a possibility of a union or on the target of
  a pointer.  The classes that \<open>resolved\<close> replaces do not override the \<open>proxy\<close> of
  \<open>ObjectArrayMapping\<close>, which raises.
\<close>

definition proxy_node ::
  "(nat \<Rightarrow> int \<Rightarrow> pyerror + pyvalue) \<Rightarrow> ndarray node \<Rightarrow> nat \<Rightarrow> int \<Rightarrow> pyerror + pyvalue" where
  "proxy_node rec node self index =
     (case node of
        Primitive array masked base \<Rightarrow>
          (case masked_at array index of
             Inl e \<Rightarrow> Inl e
           | Inr True \<Rightarrow> Inr PNone
           | Inr False \<Rightarrow> map_sum id PScalar (getitem (arr_data array) index))
      | ListStartEnd startarray endarray contents masked base \<Rightarrow>
          (case masked_at startarray index of
             Inl e \<Rightarrow> Inl e
           | Inr True \<Rightarrow> Inr PNone
           | Inr False \<Rightarrow> Inr (PListProxy self index))
      | Record contents base name \<Rightarrow> Inr (PRecordProxy self index)
      | Tuple contents base \<Rightarrow> Inr (PTupleProxy self index)
      | UnionSparseOffset tagarray offsetarray contents masked base \<Rightarrow>
          (case masked_at tagarray index of
             Inl e \<Rightarrow> Inl e
           | Inr True \<Rightarrow> Inr PNone
           | Inr False \<Rightarrow>
               (case getitem (arr_data tagarray) index of
                  Inl e \<Rightarrow> Inl e
                | Inr tag \<Rightarrow>
                    (case getitem (arr_data offsetarray) index of
                       Inl e \<Rightarrow> Inl e
                     | Inr offset \<Rightarrow>
                         (case getitem contents tag of
                            Inl e \<Rightarrow> Inl e
                          | Inr c \<Rightarrow> rec c offset))))
      | Pointer indexarray target masked base \<Rightarrow>
          (case masked_at indexarray index of
             Inl e \<Rightarrow> Inl e
           | Inr True \<Rightarrow> Inr PNone
           | Inr False \<Rightarrow>
               (case getitem (arr_data indexarray) index of
                  Inl e \<Rightarrow> Inl e
                | Inr offset \<Rightarrow> rec target offset))
      | _ \<Rightarrow> Inl (TypeError ''cannot get a proxy for an unresolved ObjectArrayMap; call the resolved method first or pass a source to this method''))"

primrec proxy :: "nat \<Rightarrow> (nat \<Rightarrow> ndarray node) \<Rightarrow> nat \<Rightarrow> int \<Rightarrow> pyerror + pyvalue" where
  "proxy 0 schema self index = Inl RecursionError"
| "proxy (Suc depth) schema self index =
     proxy_node (proxy depth schema) (schema self) self index"

section \<open>oamap: the \<open>Masked\<close> mix-ins\<close>

text \<open>
  In oamap the mask is an array of its own, found by name in the dictionary \<open>arrays\<close>.
  An array is its elements (a boolean is \<open>0\<close> or \<open>1\<close>), its dtype and \<open>shape[1:]\<close>.
\<close>

record oarray =
  o_data :: "int list"
  o_dtype :: string
  o_dims :: "nat list"

text \<open>
  oamap/proxy.py, \<open>Masked.__new__\<close>; \<open>base\<close> is \<open>cls.__bases__[1].__new__\<close>, and \<open>None\<close> is
  Python's \<open>None\<close>.
\<close>

definition Masked_new ::
  "string \<Rightarrow> ((string \<rightharpoonup> oarray) \<Rightarrow> int \<Rightarrow> pyerror + 'v option) \<Rightarrow> (string \<rightharpoonup> oarray) \<Rightarrow> int
     \<Rightarrow> pyerror + 'v option" where
  "Masked_new maskname base arrays index =
     (case arrays maskname of
        None \<Rightarrow> Inl KeyError
      | Some m \<Rightarrow>
          (case getitem (o_data m) index of
             Inl e \<Rightarrow> Inl e
           | Inr b \<Rightarrow> if b \<noteq> 0 then Inr None else base arrays index))"

text \<open>
  oamap/generator.py, \<open>Generator._getarray\<close>: the cache is the list \<open>cache.arraylist\<close>; an
  empty slot is filled from \<open>arrays\<close> and the array is then checked.
\<close>

definition getarray ::
  "(string \<rightharpoonup> oarray) \<Rightarrow> string \<Rightarrow> oarray option list \<Rightarrow> nat \<Rightarrow> string \<Rightarrow> nat list
     \<Rightarrow> pyerror + oarray \<times> oarray option list" where
  "getarray arrays name cache cacheidx dtype dims =
     (if cacheidx \<ge> length cache then Inl (IndexError ''list index out of range'')
      else (case cache ! cacheidx of
              Some a \<Rightarrow> Inr (a, cache)
            | None \<Rightarrow>
                (case arrays name of
                   None \<Rightarrow> Inl KeyError
                 | Some a \<Rightarrow>
                     if o_dtype a \<noteq> dtype then Inl (TypeError ''arrays[{0}].dtype is {1} but expected {2}'')
                     else if o_dims a \<noteq> dims then Inl (TypeError ''arrays[{0}].shape[1:] is {1} but expected {2}'')
                     else Inr (a, cache[cacheidx := Some a]))))"

text \<open>
  \<open>Masked._generate\<close>; \<open>base\<close> is \<open>self.__class__.__bases__[1]._generate\<close>, and
  \<open>Masked.dtype\<close> is \<open>numpy.bool_\<close>.
\<close>

definition Masked_generate ::
  "string \<Rightarrow> nat \<Rightarrow> ((string \<rightharpoonup> oarray) \<Rightarrow> int \<Rightarrow> oarray option list \<Rightarrow> pyerror + 'v option \<times> oarray option list)
     \<Rightarrow> (string \<rightharpoonup> oarray) \<Rightarrow> int \<Rightarrow> oarray option list \<Rightarrow> pyerror + 'v option \<times> oarray option list" where
  "Masked_generate maskname maskidx base arrays index cache =
     (case getarray arrays maskname cache maskidx ''bool'' [] of
        Inl e \<Rightarrow> Inl e
      | Inr (m, cache1) \<Rightarrow>
          (case getitem (o_data m) index of
             Inl e \<Rightarrow> Inl e
           | Inr b \<Rightarrow> if b \<noteq> 0 then Inr (None, cache1) else base arrays index cache1))"

section \<open>plur/python/convert.py: the flattener\<close>

text \<open>
  The types the walk distinguishes with \<open>isinstance\<close>: \<open>Primitive\<close>, \<open>List\<close>, \<open>Union\<close> and
  \<open>Record\<close>, with \<open>tpe.of\<close> as the argument; \<open>TOther\<close> is a type object of any other class.
  A primitive type is named by its dtype.
\<close>

datatype tpe =
    TPrimitive string
  | TList tpe
  | TUnion "tpe list"
  | TRecord "(string \<times> tpe) list"
  | TOther string

text \<open>
  The Python objects handed to the flattener: a number, a string, a list or tuple, a
  dictionary, a named tuple, and an object with attributes.
\<close>

datatype pyobj =
    Num int
  | Str string
  | Seq "pyobj list"
  | Dict "(string \<times> pyobj) list"
  | NamedTuple "(string \<times> pyobj) list"
  | Obj "(string \<times> pyobj) list"

text \<open>
  Modelled from the spec: the class \<open>ArrayName\<close> is not among the sources.  The spec calls
  an array name a structured path key, the prefix followed by one segment per field,
  list or union branch; the model keeps the segments that follow the prefix.
\<close>

datatype segment = Lo | Ld | Ut | Uo | Ud nat | Rf string

type_synonym arrayname = "segment list"

definition toListOffset :: "arrayname \<Rightarrow> arrayname" where "toListOffset name = name @ [Lo]"
definition toListData :: "arrayname \<Rightarrow> arrayname" where "toListData name = name @ [Ld]"
definition toUnionTag :: "arrayname \<Rightarrow> arrayname" where "toUnionTag name = name @ [Ut]"
definition toUnionOffset :: "arrayname \<Rightarrow> arrayname" where "toUnionOffset name = name @ [Uo]"
definition toUnionData :: "arrayname \<Rightarrow> nat \<Rightarrow> arrayname" where "toUnionData name tag = name @ [Ud tag]"
definition toRecord :: "arrayname \<Rightarrow> string \<Rightarrow> arrayname" where "toRecord name fn = name @ [Rf fn]"

text \<open>
  Modelled from the spec: the class \<open>FillableInMemory\<close> and \<open>type2columns\<close> are not among
  the sources.  The spec says the flattener appends values to the columns, so a fillable
  is the list of the values filled so far, there is one for every array name, and
  \<open>finalize\<close> returns that list as an array.  With the fillables the state of one call
  of \<open>toarrays\<close> holds its two dictionaries of running offsets.
\<close>

record fstate =
  fillables :: "arrayname \<Rightarrow> int list"
  last_list_offset :: "arrayname \<rightharpoonup> int"
  last_union_offset :: "arrayname \<rightharpoonup> int"

text \<open>Modelled from the spec: \<open>FillableInMemory.fill\<close>, which appends one value to a column.\<close>

definition fill :: "arrayname \<Rightarrow> int \<Rightarrow> fstate \<Rightarrow> fstate" where
  "fill name v st = st\<lparr>fillables := (fillables st)(name := fillables st name @ [v])\<rparr>"

type_synonym recursing = "pyobj \<Rightarrow> arrayname \<Rightarrow> fstate \<Rightarrow> pyerror + fstate"

text \<open>
  The branch of a primitive type.  \<open>contains dtype n\<close> is \<open>obj in tpe\<close> for a number; the
  primitive types are numeric, so no other object is in one.
\<close>

definition Primitive_recurse :: "(string \<Rightarrow> int \<Rightarrow> bool) \<Rightarrow> string \<Rightarrow> recursing" where
  "Primitive_recurse contains dtype obj name st =
     (case obj of
        Num n \<Rightarrow>
          if \<not> contains dtype n
          then Inl (TypeError ''cannot fill {0} where an object of type {1} is expected'')
          else Inr (fill name n st)
      | _ \<Rightarrow> Inl (TypeError ''cannot fill {0} where an object of type {1} is expected''))"

text \<open>
  What \<open>for x in obj\<close> walks over, when \<open>iter(obj)\<close> succeeds and \<open>obj\<close> is neither a \<open>dict\<close>
  nor a tuple with \<open>_fields\<close>: the elements of a list or tuple, the characters of a string.
\<close>

fun iterable :: "pyobj \<Rightarrow> pyobj list option" where
  "iterable (Seq xs) = Some xs"
| "iterable (Str s) = Some (map (\<lambda>c. Str [c]) s)"
| "iterable obj = None"

text \<open>The loop \<open>for x in obj: recurse(x, tpe.of, namedata)\<close>.\<close>

fun recurse_each :: "recursing \<Rightarrow> pyobj list \<Rightarrow> arrayname \<Rightarrow> fstate \<Rightarrow> pyerror + fstate" where
  "recurse_each rec [] name st = Inr st"
| "recurse_each rec (x # xs) name st =
     (case rec x name st of
        Inl e \<Rightarrow> Inl e
      | Inr st1 \<Rightarrow> recurse_each rec xs name st1)"

definition List_recurse :: "recursing \<Rightarrow> recursing" where
  "List_recurse rec obj name st =
     (case iterable obj of
        None \<Rightarrow> Inl (TypeError ''cannot fill {0} where an object of type {1} is expected'')
      | Some xs \<Rightarrow>
          let nameoffset = toListOffset name;
              namedata = toListData name;
              offset = (case last_list_offset st nameoffset of None \<Rightarrow> 0 | Some n \<Rightarrow> n) + int (length xs);
              st1 = st\<lparr>last_list_offset := (last_list_offset st)(nameoffset \<mapsto> offset)\<rparr>;
              st2 = fill nameoffset offset st1
          in recurse_each rec xs namedata st2)"

text \<open>
  The first possibility that the inferred type of \<open>obj\<close> is a subtype of.  \<open>infertype\<close> and
  \<open>issubtype\<close> are not among the sources: \<open>fits obj possibility\<close> is
  \<open>infertype(obj).issubtype(possibility)\<close>, a parameter of the model.
\<close>

fun first_tag :: "(pyobj \<Rightarrow> tpe \<Rightarrow> bool) \<Rightarrow> pyobj \<Rightarrow> tpe list \<Rightarrow> nat \<Rightarrow> nat option" where
  "first_tag fits obj [] i = None"
| "first_tag fits obj (possibility # rest) i =
     (if fits obj possibility then Some i else first_tag fits obj rest (Suc i))"

definition Union_recurse :: "(pyobj \<Rightarrow> tpe \<Rightarrow> bool) \<Rightarrow> tpe list \<Rightarrow> recursing list \<Rightarrow> recursing" where
  "Union_recurse fits possibilities recs obj name st =
     (case first_tag fits obj possibilities 0 of
        None \<Rightarrow> Inl (TypeError ''cannot fill {0} where an object of type {1} is expected'')
      | Some tag \<Rightarrow>
          let nametag = toUnionTag name;
              nameoffset = toUnionOffset name;
              namedata = toUnionData name tag;
              offset = (case last_union_offset st namedata of None \<Rightarrow> 0 | Some n \<Rightarrow> n);
              st1 = fill nametag (int tag) st;
              st2 = fill nameoffset offset st1;
              st3 = st2\<lparr>last_union_offset := (last_union_offset st2)(namedata \<mapsto> offset + 1)\<rparr>
          in (recs ! tag) obj namedata st3)"

text \<open>
  The fields of a record are looked up by key in a \<open>dict\<close> and by attribute in any other
  object; the model gives attributes to named tuples and objects only.
\<close>

fun attributes :: "pyobj \<Rightarrow> (string \<times> pyobj) list" where
  "attributes (Dict kvs) = kvs"
| "attributes (NamedTuple kvs) = kvs"
| "attributes (Obj kvs) = kvs"
| "attributes obj = []"

fun Record_recurse :: "(string \<times> recursing) list \<Rightarrow> recursing" where
  "Record_recurse [] obj name st = Inr st"
| "Record_recurse ((fn, rec) # rest) obj name st =
     (case map_of (attributes obj) fn of
        None \<Rightarrow> Inl (TypeError ''cannot fill {0} (missing field \"{1}\") where an object of type {2} is expected'')
      | Some x \<Rightarrow>
          (case rec x (toRecord name fn) st of
             Inl e \<Rightarrow> Inl e
           | Inr st1 \<Rightarrow> Record_recurse rest obj name st1))"

text \<open>The function \<open>recurse\<close> of \<open>toarrays\<close>, by the class of \<open>tpe\<close>.\<close>

primrec recurse :: "(string \<Rightarrow> int \<Rightarrow> bool) \<Rightarrow> (pyobj \<Rightarrow> tpe \<Rightarrow> bool) \<Rightarrow> tpe \<Rightarrow> recursing" where
  "recurse contains fits (TPrimitive dtype) = Primitive_recurse contains dtype"
| "recurse contains fits (TList items) = List_recurse (recurse contains fits items)"
| "recurse contains fits (TUnion possibilities) =
     Union_recurse fits possibilities (map (recurse contains fits) possibilities)"
| "recurse contains fits (TRecord fts) =
     Record_recurse (map (map_prod id (recurse contains fits)) fts)"
| "recurse contains fits (TOther cls) =
     (\<lambda>obj name st. Inl (AssertionError ''unexpected type object: {0}''))"

text \<open>
  Modelled from the spec: the initial content of a \<open>FillableInMemory\<close> is not among the
  sources.  In the spec's scenario of flattening \<open>{x:1, y:[1,2,3]}\<close> the offset column of
  the list is \<open>[0,3]\<close> while the walk fills only the \<open>3\<close>, so the column of a list's offsets
  starts with \<open>0\<close>; every other column starts empty.
\<close>

definition initial_fillables :: "arrayname \<Rightarrow> int list" where
  "initial_fillables name = (case rev name of Lo # rest \<Rightarrow> [0] | _ \<Rightarrow> [])"

definition initial_fstate :: fstate where
  "initial_fstate =
     \<lparr>fillables = initial_fillables, last_list_offset = Map.empty, last_union_offset = Map.empty\<rparr>"

text \<open>
  \<open>toarrays\<close> with the type given: the walk starts at the prefix, and the result maps
  every array name to what its fillable holds.
\<close>

definition toarrays ::
  "(string \<Rightarrow> int \<Rightarrow> bool) \<Rightarrow> (pyobj \<Rightarrow> tpe \<Rightarrow> bool) \<Rightarrow> pyobj \<Rightarrow> tpe \<Rightarrow> pyerror + (arrayname \<Rightarrow> int list)" where
  "toarrays contains fits obj tpe =
     map_sum id fillables (recurse contains fits tpe obj [] initial_fstate)"

section \<open>Reaching a type object of another class\<close>

text \<open>
  In the words of the claim: the walk reaches a node that is none of \<open>Primitive\<close>, \<open>List\<close>,
  \<open>Union\<close> and \<open>Record\<close>.  \<open>reaches\<close> follows the walk of \<open>recurse\<close>: it is true at such a
  node, descends into the elements of a list, the selected possibility of a union and
  the fields of a record in the order of the walk, and goes on to the next element or
  field only when the walk of the one before has returned.
\<close>

type_synonym reaching = "pyobj \<Rightarrow> arrayname \<Rightarrow> fstate \<Rightarrow> bool"

fun reaches_each :: "recursing \<Rightarrow> reaching \<Rightarrow> pyobj list \<Rightarrow> arrayname \<Rightarrow> fstate \<Rightarrow> bool" where
  "reaches_each rec reach [] name st = False"
| "reaches_each rec reach (x # xs) name st =
     (reach x name st \<or>
      (case rec x name st of
         Inl e \<Rightarrow> False
       | Inr st1 \<Rightarrow> reaches_each rec reach xs name st1))"

definition List_reaches :: "recursing \<Rightarrow> reaching \<Rightarrow> reaching" where
  "List_reaches rec reach obj name st =
     (case iterable obj of
        None \<Rightarrow> False
      | Some xs \<Rightarrow>
          let nameoffset = toListOffset name;
              namedata = toListData name;
              offset = (case last_list_offset st nameoffset of None \<Rightarrow> 0 | Some n \<Rightarrow> n) + int (length xs);
              st1 = st\<lparr>last_list_offset := (last_list_offset st)(nameoffset \<mapsto> offset)\<rparr>;
              st2 = fill nameoffset offset st1
          in reaches_each rec reach xs namedata st2)"

definition Union_reaches :: "(pyobj \<Rightarrow> tpe \<Rightarrow> bool) \<Rightarrow> tpe list \<Rightarrow> reaching list \<Rightarrow> reaching" where
  "Union_reaches fits possibilities reachs obj name st =
     (case first_tag fits obj possibilities 0 of
        None \<Rightarrow> False
      | Some tag \<Rightarrow>
          let nametag = toUnionTag name;
              nameoffset = toUnionOffset name;
              namedata = toUnionData name tag;
              offset = (case last_union_offset st namedata of None \<Rightarrow> 0 | Some n \<Rightarrow> n);
              st1 = fill nametag (int tag) st;
              st2 = fill nameoffset offset st1;
              st3 = st2\<lparr>last_union_offset := (last_union_offset st2)(namedata \<mapsto> offset + 1)\<rparr>
          in (reachs ! tag) obj namedata st3)"

fun Record_reaches :: "(string \<times> recursing \<times> reaching) list \<Rightarrow> reaching" where
  "Record_reaches [] obj name st = False"
| "Record_reaches ((fn, rec, reach) # rest) obj name st =
     (case map_of (attributes obj) fn of
        None \<Rightarrow> False
      | Some x \<Rightarrow>
          (reach x (toRecord name fn) st \<or>
           (case rec x (toRecord name fn) st of
              Inl e \<Rightarrow> False
            | Inr st1 \<Rightarrow> Record_reaches rest obj name st1)))"

primrec reaches :: "(string \<Rightarrow> int \<Rightarrow> bool) \<Rightarrow> (pyobj \<Rightarrow> tpe \<Rightarrow> bool) \<Rightarrow> tpe \<Rightarrow> reaching" where
  "reaches contains fits (TPrimitive dtype) = (\<lambda>obj name st. False)"
| "reaches contains fits (TList items) =
     List_reaches (recurse contains fits items) (reaches contains fits items)"
| "reaches contains fits (TUnion possibilities) =
     Union_reaches fits possibilities (map (reaches contains fits) possibilities)"
| "reaches contains fits (TRecord fts) =
     Record_reaches (map (map_prod id (\<lambda>t. (recurse contains fits t, reaches contains fits t))) fts)"
| "reaches contains fits (TOther cls) = (\<lambda>obj name st. True)"

text \<open>A type contains a type object of another class, at any depth.\<close>

primrec contains_other :: "tpe \<Rightarrow> bool" where
  "contains_other (TPrimitive dtype) = False"
| "contains_other (TList items) = contains_other items"
| "contains_other (TUnion possibilities) = list_ex id (map contains_other possibilities)"
| "contains_other (TRecord fts) = list_ex snd (map (map_prod id contains_other) fts)"
| "contains_other (TOther cls) = True"

section \<open>Example schemas\<close>

text \<open>The state in which a top-level call of \<open>resolved\<close> starts: \<open>_memo\<close> is empty.\<close>

definition empty_rstate :: rstate where
  "empty_rstate = \<lparr>the_memo = Map.empty, built = []\<rparr>"





text \<open>A record of two primitive fields, \<open>a\<close> before \<open>b\<close>; the objects 0, 1 and 2 exist.\<close>

definition record_heap :: "aref heap" where
  "record_heap =
     \<lparr>nodes = (\<lambda>i. Primitive (Key ''b'') False None)
                (0 := Record [(''a'', 1), (''b'', 2)] None ''Record-0'',
                 1 := Primitive (Key ''a'') False None),
      next_id = 3\<rparr>"

text \<open>
  A list given by a start array \<open>[0, 2]\<close> and an end array \<open>[2, 5]\<close>, and the same list
  given by the offset array \<open>[0, 2, 5]\<close>.
\<close>

definition startend_schema :: "nat \<Rightarrow> aref node" where
  "startend_schema = (\<lambda>i. Primitive (Key ''data'') False None)
     (0 := ListStartEnd (Key ''start'') (Key ''end'') 1 False None)"

definition offset_schema :: "nat \<Rightarrow> aref node" where
  "offset_schema = (\<lambda>i. Primitive (Key ''data'') False None)
     (0 := ListOffset (Key ''offset'') 1 False None)"

definition startend_source :: source where
  "startend_source = [''start'' \<mapsto> int64_array [0, 2], ''end'' \<mapsto> int64_array [2, 5],
                      ''offset'' \<mapsto> int64_array [0, 2, 5],
                      ''data'' \<mapsto> int64_array [10, 20, 30, 40, 50]]"

text \<open>
  A list whose contents is a pointer back to the list: the pointer 1 has the target 0, and
  the target contains the pointer.
\<close>

definition cyclic_schema :: "nat \<Rightarrow> aref node" where
  "cyclic_schema = (\<lambda>i. Pointer (Key ''index'') 0 False None)
     (0 := ListOffset (Key ''offset'') 1 False None)"

definition cyclic_source :: source where
  "cyclic_source = [''offset'' \<mapsto> int64_array [0, 1], ''index'' \<mapsto> int64_array [0]]"

text \<open>Two pointers, each the target of the other.\<close>

definition pointers_schema :: "nat \<Rightarrow> aref node" where
  "pointers_schema = (\<lambda>i. Pointer (Key ''index'') 0 False None)
     (0 := Pointer (Key ''index'') 1 False None)"

text \<open>
  The heap after projecting the record on the node of \<open>a\<close>: object 3 is the copy of the
  field \<open>a\<close> and object 4 the record that keeps it.
\<close>

definition record_heap_projected :: "aref heap" where
  "record_heap_projected =
     \<lparr>nodes = (nodes record_heap)
                (3 := Primitive (Key ''a'') False (Some 1),
                 4 := Record [(''a'', 3)] (Some 0) ''Record-0''),
      next_id = 5\<rparr>"

text \<open>A heap whose only object is a primitive node, and the heap after projecting it on itself.\<close>

definition primitive_heap :: "aref heap" where
  "primitive_heap = \<lparr>nodes = (\<lambda>i. Primitive (Key ''x'') False None), next_id = 1\<rparr>"

definition primitive_heap_projected :: "aref heap" where
  "primitive_heap_projected =
     \<lparr>nodes = (nodes primitive_heap)(1 := Primitive (Key ''x'') False (Some 0)), next_id = 2\<rparr>"

text \<open>The dictionary \<open>_memo\<close> of a top-level call of \<open>projection\<close>.\<close>

definition empty_memo :: pmemo where
  "empty_memo = Map.empty"

text \<open>A masked array whose row 1 is invalid, though its data holds 20 there.\<close>

definition masked_array :: ndarray where
  "masked_array = \<lparr>arr_data = [10, 20, 30], arr_mask = Some [False, True, False],
                    arr_integer = True, arr_ndim = 1, arr_record = False\<rparr>"

text \<open>The same in oamap: a data array and its mask array, by name.\<close>

definition masked_arrays :: "string \<rightharpoonup> oarray" where
  "masked_arrays = [''data'' \<mapsto> \<lparr>o_data = [10, 20, 30], o_dtype = ''int64'', o_dims = []\<rparr>,
                    ''mask'' \<mapsto> \<lparr>o_data = [0, 1, 0], o_dtype = ''bool'', o_dims = []\<rparr>]"

text \<open>
  A primitive type that holds every number, a classification that accepts every
  possibility, and uninitialized memory that reads as zeros.
\<close>

definition any_number :: "string \<Rightarrow> int \<Rightarrow> bool" where
  "any_number dtype n = True"

definition any_fits :: "pyobj \<Rightarrow> tpe \<Rightarrow> bool" where
  "any_fits obj possibility = True"


text \<open>
  A record whose second field is a list of a union, whose first possibility is a record
  with a field of the class \<open>Tuple\<close>; and a value that leads the walk there.
\<close>

definition int_or_tuple_schema :: tpe where
  "int_or_tuple_schema =
     TRecord [(''x'', TPrimitive ''int64''),
              (''y'', TList (TUnion [TRecord [(''z'', TOther ''Tuple'')], TPrimitive ''int64'']))]"

definition int_or_tuple_value :: pyobj where
  "int_or_tuple_value = Dict [(''x'', Num 1), (''y'', Seq [Dict [(''z'', Seq [Num 2, Num 3])]])]"

section \<open>Properties of the list view\<close>

text \<open>
  Views of a defined length.  For a list view \<open>v\<close> whose length \<open>n\<close> is defined, that is
  whose step is not zero and whose \<open>__len__\<close> is not negative, and all integers \<open>a\<close> and \<open>b\<close>,
  the slice \<open>v[a:b]\<close> does not raise: it returns the sub-view whose bounds are \<open>a\<close> and \<open>b\<close>
  clamped to \<open>[0, n]\<close>, with the stop floored to the start, and whose length is the
  distance between the clamped bounds.  Scalar access \<open>v[i]\<close> raises the out-of-bounds
  \<open>IndexError\<close> when \<open>i\<close>, after adding \<open>n\<close> to a negative index, lies outside
  \<open>[0, n)\<close>; when it lies inside, the view raises nothing of its own and the result is
  the content materialized at \<open>_start + _step * normalindex\<close>.
\<close>

lemma ListProxy_getitem_defined_length:
  assumes "ListProxy_len v = Inr n"
  shows "(let ca = clamp_bound n a; cb = max ca (clamp_bound n b);
              w = ListProxy_slice (v_start v + v_step v * ca) (v_start v + v_step v * cb) (v_step v)
          in ListProxy_getitem content v (Slice (Some a) (Some b) None) = Inr (View w)
             \<and> 0 \<le> ca \<and> ca \<le> cb \<and> cb \<le> n \<and> ListProxy_len w = Inr (cb - ca))
       \<and> (let j = (if 0 \<le> i then i else i + n)
          in (\<not> (0 \<le> j \<and> j < n) \<longrightarrow>
                ListProxy_getitem content v (Index i)
                  = Inl (IndexError ''index {0} is out of bounds for size {1}''))
           \<and> (0 \<le> j \<and> j < n \<longrightarrow>
                ListProxy_getitem content v (Index i)
                  = map_sum id Elem (content (v_start v + v_step v * j))))"
proof -
  from assms have step: "v_step v \<noteq> 0" and n0: "0 \<le> n"
    by (auto simp: ListProxy_len_def Let_def split: if_splits)
  define ca where "ca = clamp_bound n a"
  define cb where "cb = max ca (clamp_bound n b)"
  have b1: "0 \<le> ca" "ca \<le> cb" "cb \<le> n"
    using n0 by (auto simp: ca_def cb_def clamp_bound_def)
  have eq: "(if clamp_bound n b < ca then ca else clamp_bound n b) = cb"
    by (auto simp: cb_def)
  have sl: "ListProxy_getitem content v (Slice (Some a) (Some b) None)
      = Inr (View (ListProxy_slice (v_start v + v_step v * ca) (v_start v + v_step v * cb) (v_step v)))"
    using assms by (auto simp: ListProxy_getitem_def Let_def ca_def cb_def clamp_bound_def)
  have "(v_step v * cb - v_step v * ca) div v_step v = cb - ca"
    using step by (simp add: right_diff_distrib[symmetric])
  then have ln: "ListProxy_len (ListProxy_slice (v_start v + v_step v * ca) (v_start v + v_step v * cb) (v_step v)) = Inr (cb - ca)"
    using step b1 by (simp add: ListProxy_len_def ListProxy_slice_def Let_def)
  have ix: "(let j = (if 0 \<le> i then i else i + n)
          in (\<not> (0 \<le> j \<and> j < n) \<longrightarrow>
                ListProxy_getitem content v (Index i)
                  = Inl (IndexError ''index {0} is out of bounds for size {1}''))
           \<and> (0 \<le> j \<and> j < n \<longrightarrow>
                ListProxy_getitem content v (Index i)
                  = map_sum id Elem (content (v_start v + v_step v * j))))"
    using assms by (cases "content (v_start v + v_step v * (if 0 \<le> i then i else i + n))")
      (auto simp: ListProxy_getitem_def Let_def)
  show ?thesis
    using sl ln b1 ix unfolding Let_def ca_def[symmetric] cb_def[symmetric] by simp
qed

lemma ListProxy_getitem_defined_length_example:
  "ListProxy_len (ListProxy_slice 2 5 1) = Inr 3
   \<and> ListProxy_getitem (\<lambda>p. Inr p) (ListProxy_slice 2 5 1) (Slice (Some (-4)) (Some 7) None) = Inr (View (ListProxy_slice 2 5 1))
   \<and> ListProxy_getitem (\<lambda>p. Inr p) (ListProxy_slice 2 5 1) (Index (-1)) = Inr (Elem 4)
   \<and> ListProxy_getitem (\<lambda>p. Inr p) (ListProxy_slice 2 5 1) (Index 3) = Inl (IndexError ''index {0} is out of bounds for size {1}'')"
proof -
  have h: "ListProxy_len (ListProxy_slice 2 5 1) = Inr 3"
    by (simp add: ListProxy_len_def ListProxy_slice_def)
  show ?thesis
    using h ListProxy_getitem_defined_length [OF h, of "-4" 7 "\<lambda>p. Inr p" "-1"]
      ListProxy_getitem_defined_length [OF h, of "-4" 7 "\<lambda>p. Inr p" "3"]
    by (simp add: clamp_bound_def ListProxy_slice_def Let_def)
qed


text \<open>
  C8.  Reversing the view \<open>_slice(arrays, 2, 5, 1)\<close> with \<open>v[::-1]\<close> returns the view
  \<open>_slice(arrays, 2, 5, -1)\<close>: the step is negated and the bounds are left as they were.
  Its \<open>__len__\<close> is \<open>(5 - 2) // -1 = -3\<close>, on which \<open>len\<close> raises \<open>ValueError\<close>; so on this
  view, which the class itself returned, the slice \<open>w[0:1]\<close> raises, and scalar access
  \<open>w[0]\<close> raises \<open>ValueError\<close>, not \<open>IndexError\<close>, and returns no element.
\<close>

theorem reversed_ListProxy_raises:
  "ListProxy_getitem content (ListProxy_slice 2 5 1) (Slice None None (Some (- 1)))
     = Inr (View (ListProxy_slice 2 5 (- 1)))
   \<and> ListProxy_len (ListProxy_slice 2 5 (- 1)) = Inl (ValueError ''__len__() should return >= 0'')
   \<and> ListProxy_getitem content (ListProxy_slice 2 5 (- 1)) (Slice (Some 0) (Some 1) None)
     = Inl (ValueError ''__len__() should return >= 0'')
   \<and> ListProxy_getitem content (ListProxy_slice 2 5 (- 1)) (Index 0)
     = Inl (ValueError ''__len__() should return >= 0'')"
  by (simp add: ListProxy_getitem_def ListProxy_len_def ListProxy_slice_def Let_def)

section \<open>Arithmetic of \<open>int64\<close> and running sums\<close>

lemma int64_idem: "int64 (int64 a + b) = int64 (a + b)"
proof -
  have "int64 a + b + 2 ^ 63 = (a + 2 ^ 63) mod 2 ^ 64 + b"
    by (simp add: int64_def)
  then have "(int64 a + b + 2 ^ 63) mod 2 ^ 64 = ((a + 2 ^ 63) mod 2 ^ 64 + b) mod 2 ^ 64"
    by (rule arg_cong)
  also have "\<dots> = (a + 2 ^ 63 + b) mod 2 ^ 64"
    by (rule mod_add_left_eq)
  also have "a + 2 ^ 63 + b = a + b + 2 ^ 63"
    by (simp only: add.assoc add.commute [of b])
  finally have "(int64 a + b + 2 ^ 63) mod 2 ^ 64 = (a + b + 2 ^ 63) mod 2 ^ 64" .
  then show ?thesis
    unfolding int64_def [of "int64 a + b"] int64_def [of "a + b"] by (rule arg_cong)
qed












text \<open>The definitions that evaluating \<open>resolved\<close> on a given schema unfolds.\<close>

lemmas resolved_eval = resolved_node_def List_resolved_def Record_resolved_def Tuple_resolved_def
  Union_resolved_def Pointer_resolved_def recursion_check_def memoize_def
  Primitive_resolve_def ListCount_resolve_def ListOffset_resolve_def ListStartEnd_resolve_def
  UnionSparseOffset_resolve_def Pointer_resolve_def
  ObjectArrayMapping_resolved_check_def ObjectArrayMapping_toint64_def int64_array_def
  slice_init_def slice_tail_def int64_def Let_def empty_rstate_def


section \<open>Resolution of lists\<close>









section \<open>Resolution of unions\<close>



















section \<open>Evaluating \<open>resolved\<close>\<close>

text \<open>
  C5.  A \<open>ListStartEnd\<close> whose start reference names the array \<open>[0, 2]\<close> and whose end
  reference names the array \<open>[2, 5]\<close> resolves to the pair \<open>([0, 2], [0, 2])\<close>: the end
  array is read from the start reference.  The \<open>ListOffset\<close> over the offsets
  \<open>[0, 2, 5]\<close> resolves to \<open>([0, 2], [2, 5])\<close>, so the two encodings of one list do not
  resolve alike.
\<close>

theorem ListStartEnd_resolved_end_is_start:
  "resolved (Suc (Suc 0)) startend_schema (\<lambda>i. 0) startend_source 0 empty_rstate
     = Inr (1, \<lparr>the_memo = [0 \<mapsto> Some 1],
                built = [Primitive (int64_array [10, 20, 30, 40, 50]) False (Some 1),
                         ListStartEnd (int64_array [0, 2]) (int64_array [0, 2]) 0 False (Some 0)]\<rparr>)
   \<and> resolved (Suc (Suc 0)) offset_schema (\<lambda>i. 0) startend_source 0 empty_rstate
     = Inr (1, \<lparr>the_memo = [0 \<mapsto> Some 1],
                built = [Primitive (int64_array [10, 20, 30, 40, 50]) False (Some 1),
                         ListStartEnd (int64_array [0, 2]) (int64_array [2, 5]) 0 False (Some 0)]\<rparr>)"
  by (simp add: startend_schema_def offset_schema_def startend_source_def resolved_eval)


text \<open>A cycle made of pointers only exhausts every stack: no pointer enters \<open>_memo\<close>
  before it descends into its target.\<close>

lemma pointers_resolved_never_returns:
  "the_memo s = Map.empty \<Longrightarrow> resolved depth pointers_schema uninit source self s = Inl RecursionError"
proof (induction depth arbitrary: self)
  case 0
  then show ?case by simp
next
  case (Suc depth)
  then show ?case
    by (cases "self = 0") (simp_all add: pointers_schema_def resolved_node_def Pointer_resolved_def)
qed


text \<open>
  C2.  Resolving the list whose contents is a pointer back to the list raises the
  assertion of \<open>Pointer.__init__\<close> whatever the stack depth, from the list and from the
  pointer: the pointer is built while \<open>_memo\<close> still holds the placeholder \<open>None\<close> for its
  target.  No resolved tree is returned.  Two pointers that are each other's target end
  in \<open>RecursionError\<close> at every stack depth.
\<close>

theorem cyclic_pointer_resolved_raises:
  "resolved (Suc (Suc depth)) cyclic_schema uninit cyclic_source 0 empty_rstate
     = Inl (AssertionError ''target must be an ObjectArrayMapping'')
   \<and> resolved (Suc (Suc (Suc depth))) cyclic_schema uninit cyclic_source 1 empty_rstate
     = Inl (AssertionError ''target must be an ObjectArrayMapping'')
   \<and> resolved depth pointers_schema uninit source 0 empty_rstate = Inl RecursionError"
  using pointers_resolved_never_returns [of empty_rstate depth uninit source 0]
  by (simp add: cyclic_schema_def cyclic_source_def resolved_eval)

section \<open>Projection\<close>

text \<open>
  C6.  Projecting the record with the fields \<open>a\<close> and \<open>b\<close> on the required set that holds
  the node of \<open>b\<close> returns \<open>None\<close>: \<open>Record.hasany\<close> returns what its first child answers
  and never asks the second, so the required node is pruned with the whole record.
\<close>

theorem Record_projection_prunes_required_field:
  "hasany (Suc (Suc 0)) (nodes record_heap) {2} 0 {} = Inr False
   \<and> projection (Suc (Suc (Suc 0))) {2} 0 record_heap Map.empty = Inr (None, record_heap, Map.empty)"
  by (simp add: record_heap_def hasany_node_def projection_node_def)


subsection \<open>Projection builds new nodes\<close>

lemma preservesD:
  assumes "preserves n0 rec" "rec x h memo = Inr (r, h', memo')" "fresh_closed n0 h" "memo_fresh n0 h memo"
  shows "fresh_closed n0 h'" "memo_fresh n0 h' memo'" "next_id h \<le> next_id h'"
    "r = Some p \<Longrightarrow> n0 \<le> p \<and> p < next_id h'"
proof -
  note a = assms(1) [unfolded preserves_def, rule_format, OF assms(2) assms(3) assms(4)]
  from a show "fresh_closed n0 h'" by (rule conjunct1)
  from a show "memo_fresh n0 h' memo'" by simp
  from a show "next_id h \<le> next_id h'" by simp
  from a show "r = Some p \<Longrightarrow> n0 \<le> p \<and> p < next_id h'" by simp
qed

lemma memo_fresh_mono:
  assumes "memo_fresh n0 h memo" "next_id h \<le> next_id h'"
  shows "memo_fresh n0 h' memo"
  unfolding memo_fresh_def
proof (intro allI impI)
  fix x v assume "memo x = Some (Some v)"
  with assms(1) have "n0 \<le> v \<and> v < next_id h" unfolding memo_fresh_def by blast
  with assms(2) show "n0 \<le> v \<and> v < next_id h'" by simp
qed


lemma new_fresh:
  assumes "fresh_closed n0 h" "\<forall>c \<in> set (children n). n0 \<le> c \<and> c < next_id h" "new n h = (r, h')"
  shows "fresh_closed n0 h'" "r = next_id h" "next_id h' = Suc (next_id h)" "n0 \<le> r"
proof -
  from assms(3) have r: "r = next_id h" and h': "h' = h\<lparr>nodes := (nodes h)(next_id h := n), next_id := Suc (next_id h)\<rparr>"
    by (auto simp: new_def)
  from assms(1) have n0: "n0 \<le> next_id h"
    and cl: "\<And>q c. n0 \<le> q \<Longrightarrow> q < next_id h \<Longrightarrow> c \<in> set (children (nodes h q)) \<Longrightarrow> n0 \<le> c \<and> c < q"
    unfolding fresh_closed_def by blast+
  show "r = next_id h" by (rule r)
  show "next_id h' = Suc (next_id h)" by (simp add: h')
  show "n0 \<le> r" using n0 r by simp
  show "fresh_closed n0 h'"
    unfolding fresh_closed_def
  proof (rule conjI)
    show "n0 \<le> next_id h'" using n0 by (simp add: h')
  next
    show "\<forall>q. n0 \<le> q \<and> q < next_id h' \<longrightarrow> (\<forall>c \<in> set (children (nodes h' q)). n0 \<le> c \<and> c < q)"
    proof (intro allI impI ballI)
    fix q c assume q: "n0 \<le> q \<and> q < next_id h'" and c: "c \<in> set (children (nodes h' q))"
    show "n0 \<le> c \<and> c < q"
    proof (cases "q = next_id h")
      case True
      with c have "c \<in> set (children n)" by (simp add: h')
      with assms(2) True show ?thesis by simp
    next
      case False
      with q have "q < next_id h" by (simp add: h')
      moreover from c False have "c \<in> set (children (nodes h q))" by (simp add: h')
      ultimately show ?thesis using cl q by blast
    qed
    qed
  qed
qed

lemma projection_child_preserves:
  assumes "preserves n0 rec"
  shows "preserves n0 (projection_child rec)"
  unfolding preserves_def
proof (intro allI impI)
  fix x h memo r h' memo'
  assume a: "projection_child rec x h memo = Inr (r, h', memo')"
    and fc: "fresh_closed n0 h" and mf0: "memo_fresh n0 h memo"
  show "fresh_closed n0 h' \<and> memo_fresh n0 h' memo' \<and> next_id h \<le> next_id h'
        \<and> (\<forall>p. r = Some p \<longrightarrow> n0 \<le> p \<and> p < next_id h')"
  proof (cases "memo x")
    case None
    with a obtain memo1 where r: "rec x h (memo(x \<mapsto> None)) = Inr (r, h', memo1)" and m: "memo' = memo1(x \<mapsto> r)"
      by (cases "rec x h (memo(x \<mapsto> None))") (auto simp: projection_child_def)
    have mf: "memo_fresh n0 h (memo(x \<mapsto> None))"
      using mf0 unfolding memo_fresh_def by simp
    note f = preservesD [OF assms r fc mf]
    have "memo_fresh n0 h' memo'"
      unfolding m memo_fresh_def
    proof (intro allI impI)
      fix y v assume yv: "(memo1(x \<mapsto> r)) y = Some (Some v)"
      show "n0 \<le> v \<and> v < next_id h'"
      proof (cases "y = x")
        case True
        with yv have "r = Some v" by simp
        then show ?thesis by (rule f(4))
      next
        case False
        with yv have "memo1 y = Some (Some v)" by simp
        with f(2) show ?thesis unfolding memo_fresh_def by blast
      qed
    qed
    with f show ?thesis by blast
  next
    case (Some content)
    with a have e: "r = content" "h' = h" "memo' = memo"
      by (simp_all add: projection_child_def)
    from mf0 Some have "\<forall>p. content = Some p \<longrightarrow> n0 \<le> p \<and> p < next_id h"
      unfolding memo_fresh_def by blast
    with e fc mf0 show ?thesis by simp
  qed
qed


lemma projection_all_preserves:
  assumes "preserves n0 rec"
    and "projection_all rec xs h memo = Inr (cs, h', memo')" "fresh_closed n0 h" "memo_fresh n0 h memo"
  shows "fresh_closed n0 h' \<and> memo_fresh n0 h' memo' \<and> next_id h \<le> next_id h'
     \<and> (\<forall>c \<in> set cs. n0 \<le> c \<and> c < next_id h')"
  using assms(2-)
proof (induction xs arbitrary: h memo cs)
  case Nil
  then show ?case by simp
next
  case (Cons x xs)
  from Cons.prems(1) obtain content h1 memo1 where
    c: "projection_child rec x h memo = Inr (content, h1, memo1)"
    by (cases "projection_child rec x h memo") auto
  with Cons.prems(1) obtain cs1 where
    r: "projection_all rec xs h1 memo1 = Inr (cs1, h', memo')"
    and cs: "cs = (case content of None \<Rightarrow> cs1 | Some c \<Rightarrow> c # cs1)"
    by (cases "projection_all rec xs h1 memo1") auto
  note p = preservesD [OF projection_child_preserves [OF assms(1)] c Cons.prems(2,3)]
  from Cons.IH [OF r p(1) p(2)]
  have i: "fresh_closed n0 h'" "memo_fresh n0 h' memo'" "next_id h1 \<le> next_id h'"
    "\<forall>c \<in> set cs1. n0 \<le> c \<and> c < next_id h'" by simp_all
  have "\<forall>c \<in> set cs. n0 \<le> c \<and> c < next_id h'"
  proof (cases content)
    case None
    then show ?thesis using i(4) by (simp add: cs)
  next
    case (Some a)
    with p(4) have "n0 \<le> a \<and> a < next_id h1" by simp
    with i(3,4) Some show ?thesis by (auto simp: cs)
  qed
  with i p(3) show ?case by simp
qed

lemma projection_fields_preserves:
  assumes "preserves n0 rec"
    and "projection_fields rec xs h memo = Inr (cs, h', memo')" "fresh_closed n0 h" "memo_fresh n0 h memo"
  shows "fresh_closed n0 h' \<and> memo_fresh n0 h' memo' \<and> next_id h \<le> next_id h'
     \<and> (\<forall>c \<in> set (map snd cs). n0 \<le> c \<and> c < next_id h')"
  using assms(2-)
proof (induction xs arbitrary: h memo cs)
  case Nil
  then show ?case by simp
next
  case (Cons nx xs)
  obtain n x where nx: "nx = (n, x)" by (cases nx)
  from Cons.prems(1) obtain content h1 memo1 where
    c: "projection_child rec x h memo = Inr (content, h1, memo1)"
    unfolding nx by (cases "projection_child rec x h memo") auto
  with Cons.prems(1) obtain cs1 where
    r: "projection_fields rec xs h1 memo1 = Inr (cs1, h', memo')"
    and cs: "cs = (case content of None \<Rightarrow> cs1 | Some c \<Rightarrow> (n, c) # cs1)"
    unfolding nx by (cases "projection_fields rec xs h1 memo1") auto
  note p = preservesD [OF projection_child_preserves [OF assms(1)] c Cons.prems(2,3)]
  from Cons.IH [OF r p(1) p(2)]
  have i: "fresh_closed n0 h'" "memo_fresh n0 h' memo'" "next_id h1 \<le> next_id h'"
    "\<forall>c \<in> set (map snd cs1). n0 \<le> c \<and> c < next_id h'" by simp_all
  have "\<forall>c \<in> set (map snd cs). n0 \<le> c \<and> c < next_id h'"
  proof (cases content)
    case None
    then show ?thesis using i(4) by (simp add: cs)
  next
    case (Some a)
    with p(4) have "n0 \<le> a \<and> a < next_id h1" by simp
    with i(3,4) Some show ?thesis by (auto simp: cs)
  qed
  with i p(3) show ?case by simp
qed


lemma new_step:
  assumes "fresh_closed n0 h" "memo_fresh n0 h memo"
    "\<forall>c \<in> set (children n). n0 \<le> c \<and> c < next_id h" "new n h = (r, h')"
  shows "fresh_closed n0 h' \<and> memo_fresh n0 h' memo \<and> next_id h \<le> next_id h'
     \<and> n0 \<le> r \<and> r < next_id h'"
proof -
  note f = new_fresh [OF assms(1) assms(3) assms(4)]
  have le: "next_id h \<le> next_id h'" using f(3) by simp
  have "r < next_id h'" using f(2,3) by simp
  with memo_fresh_mono [OF assms(2) le] f(1,4) le show ?thesis by simp
qed

lemma projection_single_preserves:
  assumes "preserves n0 rec" "\<And>c. children (build c) = [c]"
  shows "preserves n0 (projection_single rec array masked build)"
  unfolding preserves_def
proof (intro allI impI)
  fix x h memo r h' memo'
  assume a: "projection_single rec array masked build x h memo = Inr (r, h', memo')"
    and fc: "fresh_closed n0 h" and mf: "memo_fresh n0 h memo"
  from a obtain content h1 memo1 where
    c: "projection_child rec x h memo = Inr (content, h1, memo1)"
    by (cases "projection_child rec x h memo") (auto simp: projection_single_def)
  note p = preservesD [OF projection_child_preserves [OF assms(1)] c fc mf]
  show "fresh_closed n0 h' \<and> memo_fresh n0 h' memo' \<and> next_id h \<le> next_id h'
        \<and> (\<forall>p. r = Some p \<longrightarrow> n0 \<le> p \<and> p < next_id h')"
  proof (cases content)
    case (Some k)
    obtain q h2 where n: "new (build k) h1 = (q, h2)" by (cases "new (build k) h1")
    with a c Some have e: "r = Some q" "h' = h2" "memo' = memo1"
      by (simp_all add: projection_single_def)
    from p(4) Some have "\<forall>c \<in> set (children (build k)). n0 \<le> c \<and> c < next_id h1"
      by (simp add: assms(2))
    from new_step [OF p(1) p(2) this n] p(3) show ?thesis
      unfolding e by simp
  next
    case None
    obtain k h2 where n1: "new (Primitive array masked None) h1 = (k, h2)"
      by (cases "new (Primitive array masked None) h1")
    obtain q h3 where n2: "new (build k) h2 = (q, h3)" by (cases "new (build k) h2")
    from a c None n1 n2 have e: "r = Some q" "h' = h3" "memo' = memo1"
      by (simp_all add: projection_single_def)
    have "\<forall>c \<in> set (children (Primitive array masked None :: 'a node)). n0 \<le> c \<and> c < next_id h1"
      by simp
    note s1 = new_step [OF p(1) p(2) this n1]
    from s1 have fc2: "fresh_closed n0 h2" and mf2: "memo_fresh n0 h2 memo1"
      and le2: "next_id h1 \<le> next_id h2" by simp_all
    from s1 have "\<forall>c \<in> set (children (build k)). n0 \<le> c \<and> c < next_id h2"
      by (simp add: assms(2))
    from new_step [OF fc2 mf2 this n2] le2 p(3) show ?thesis
      unfolding e by simp
  qed
qed

lemma projection_several_preserves:
  assumes "preserves n0 rec" "\<And>cs. children (build cs) = cs"
    and a: "projection_several rec build xs h memo = Inr (r, h', memo')"
    and fc: "fresh_closed n0 h" and mf: "memo_fresh n0 h memo"
  shows "fresh_closed n0 h' \<and> memo_fresh n0 h' memo' \<and> next_id h \<le> next_id h'
        \<and> (\<forall>p. r = Some p \<longrightarrow> n0 \<le> p \<and> p < next_id h')"
proof -
  from a obtain cs h1 memo1 where
    c: "projection_all rec xs h memo = Inr (cs, h1, memo1)"
    by (cases "projection_all rec xs h memo") (auto simp: projection_several_def)
  note p = projection_all_preserves [OF assms(1) c fc mf]
  show ?thesis
  proof (cases "length cs > 0")
    case True
    obtain q h2 where n: "new (build cs) h1 = (q, h2)" by (cases "new (build cs) h1")
    with a c True have e: "r = Some q" "h' = h2" "memo' = memo1"
      by (simp_all add: projection_several_def)
    from p have fc1: "fresh_closed n0 h1" and mf1: "memo_fresh n0 h1 memo1"
      and le1: "next_id h \<le> next_id h1" by simp_all
    from p have "\<forall>c \<in> set (children (build cs)). n0 \<le> c \<and> c < next_id h1"
      by (simp add: assms(2))
    from new_step [OF fc1 mf1 this n] le1 show ?thesis
      unfolding e by simp
  next
    case False
    with a c have e: "r = None" "h' = h1" "memo' = memo1"
      by (simp_all add: projection_several_def)
    with p show ?thesis by simp
  qed
qed

lemma Record_projection_preserves:
  assumes "preserves n0 rec"
    and a: "Record_projection rec self xs h memo = Inr (r, h', memo')"
    and fc: "fresh_closed n0 h" and mf: "memo_fresh n0 h memo"
  shows "fresh_closed n0 h' \<and> memo_fresh n0 h' memo' \<and> next_id h \<le> next_id h'
        \<and> (\<forall>p. r = Some p \<longrightarrow> n0 \<le> p \<and> p < next_id h')"
proof -
  from a obtain cs h1 memo1 where
    c: "projection_fields rec xs h memo = Inr (cs, h1, memo1)"
    by (cases "projection_fields rec xs h memo") (auto simp: Record_projection_def)
  note p = projection_fields_preserves [OF assms(1) c fc mf]
  show ?thesis
  proof (cases "length cs > 0")
    case True
    obtain q h2 where n: "new (Record cs (Some self) ''Record-0'') h1 = (q, h2)"
      by (cases "new (Record cs (Some self) ''Record-0'' :: 'a node) h1")
    with a c True have e: "r = Some q" "h' = h2" "memo' = memo1"
      by (simp_all add: Record_projection_def)
    from p have c0: "\<forall>c \<in> set (children (Record cs (Some self) ''Record-0'' :: 'a node)). n0 \<le> c \<and> c < next_id h1"
      by simp
    from p have fc1: "fresh_closed n0 h1" and mf1: "memo_fresh n0 h1 memo1"
      and le1: "next_id h \<le> next_id h1" by simp_all
    from new_step [OF fc1 mf1 c0 n] le1 show ?thesis
      unfolding e by simp
  next
    case False
    with a c have e: "r = None" "h' = h1" "memo' = memo1"
      by (simp_all add: Record_projection_def)
    with p show ?thesis by simp
  qed
qed


lemma preserves_all:
  assumes "preserves n0 rec" "rec x h memo = Inr (r, h', memo')" "fresh_closed n0 h" "memo_fresh n0 h memo"
  shows "fresh_closed n0 h' \<and> memo_fresh n0 h' memo' \<and> next_id h \<le> next_id h'
        \<and> (\<forall>p. r = Some p \<longrightarrow> n0 \<le> p \<and> p < next_id h')"
  by (rule assms(1) [unfolded preserves_def, rule_format, OF assms(2) assms(3) assms(4)])

lemma projection_node_preserves:
  assumes "preserves n0 rec"
    and a: "projection_node rec has node self h memo = Inr (r, h', memo')"
    and fc: "fresh_closed n0 h" and mf: "memo_fresh n0 h memo"
  shows "fresh_closed n0 h' \<and> memo_fresh n0 h' memo' \<and> next_id h \<le> next_id h'
        \<and> (\<forall>p. r = Some p \<longrightarrow> n0 \<le> p \<and> p < next_id h')"
proof (cases has)
  case (Inl e)
  with a show ?thesis by (simp add: projection_node_def)
next
  case (Inr b)
  show ?thesis
  proof (cases b)
    case False
    with a Inr have "r = None" "h' = h" "memo' = memo" by (simp_all add: projection_node_def)
    with fc mf show ?thesis by simp
  next
    case True
    note hb = Inr True
    show ?thesis
    proof (cases node)
      case (Primitive array masked base)
      obtain q h2 where n: "new (Primitive array masked (Some self)) h = (q, h2)"
        by (cases "new (Primitive array masked (Some self)) h")
      with a hb Primitive have e: "r = Some q" "h' = h2" "memo' = memo"
        by (simp_all add: projection_node_def)
      have "\<forall>c \<in> set (children (Primitive array masked (Some self) :: 'a node)). n0 \<le> c \<and> c < next_id h"
        by simp
      from new_step [OF fc mf this n] show ?thesis unfolding e by simp
    next
      case (ListCount countarray contents masked base)
      with a hb have "projection_single rec countarray masked
          (\<lambda>c. ListCount countarray c masked (Some self)) contents h memo = Inr (r, h', memo')"
        by (simp add: projection_node_def)
      from preserves_all [OF projection_single_preserves [OF assms(1)] this fc mf]
      show ?thesis by simp
    next
      case (ListOffset offsetarray contents masked base)
      with a hb have "projection_single rec offsetarray masked
          (\<lambda>c. ListOffset offsetarray c masked (Some self)) contents h memo = Inr (r, h', memo')"
        by (simp add: projection_node_def)
      from preserves_all [OF projection_single_preserves [OF assms(1)] this fc mf]
      show ?thesis by simp
    next
      case (ListStartEnd startarray endarray contents masked base)
      with a hb have "projection_single rec startarray masked
          (\<lambda>c. ListStartEnd startarray endarray c masked (Some self)) contents h memo = Inr (r, h', memo')"
        by (simp add: projection_node_def)
      from preserves_all [OF projection_single_preserves [OF assms(1)] this fc mf]
      show ?thesis by simp
    next
      case (Record contents base name)
      with a hb have "Record_projection rec self contents h memo = Inr (r, h', memo')"
        by (simp add: projection_node_def)
      from Record_projection_preserves [OF assms(1) this fc mf] show ?thesis .
    next
      case (Tuple contents base)
      with a hb have "projection_several rec (\<lambda>cs. Tuple cs (Some self)) contents h memo = Inr (r, h', memo')"
        by (simp add: projection_node_def)
      from projection_several_preserves [OF assms(1) _ this fc mf] show ?thesis by simp
    next
      case (UnionSparse tagarray contents masked base)
      with a hb have "projection_several rec (\<lambda>cs. UnionSparse tagarray cs masked (Some self))
          contents h memo = Inr (r, h', memo')"
        by (simp add: projection_node_def)
      from projection_several_preserves [OF assms(1) _ this fc mf] show ?thesis by simp
    next
      case (UnionSparseOffset tagarray offsetarray contents masked base)
      with a hb have "projection_several rec
          (\<lambda>cs. UnionSparseOffset tagarray offsetarray cs masked (Some self))
          contents h memo = Inr (r, h', memo')"
        by (simp add: projection_node_def)
      from projection_several_preserves [OF assms(1) _ this fc mf] show ?thesis by simp
    next
      case (Pointer indexarray target masked base)
      with a hb have "projection_single rec indexarray masked
          (\<lambda>c. Pointer indexarray c masked (Some self)) target h memo = Inr (r, h', memo')"
        by (simp add: projection_node_def)
      from preserves_all [OF projection_single_preserves [OF assms(1)] this fc mf]
      show ?thesis by simp
    qed
  qed
qed

lemma projection_preserves: "preserves n0 (projection depth required :: 'r projecting)"
proof (induction depth)
  case 0
  show ?case unfolding preserves_def by simp
next
  case (Suc depth)
  show ?case
    unfolding preserves_def
  proof (intro allI impI)
    fix x memo r h' memo' and h :: "'r heap"
    assume a: "projection (Suc depth) required x h memo = Inr (r, h', memo')"
      and fc: "fresh_closed n0 h" and mf: "memo_fresh n0 h memo"
    from a have "projection_node (projection depth required)
        (hasany depth (nodes h) required x {}) (nodes h x) x h memo = Inr (r, h', memo')"
      by simp
    from projection_node_preserves [OF Suc this fc mf]
    show "fresh_closed n0 h' \<and> memo_fresh n0 h' memo' \<and> next_id h \<le> next_id h'
        \<and> (\<forall>p. r = Some p \<longrightarrow> n0 \<le> p \<and> p < next_id h')" .
  qed
qed


lemma hasany_child_False:
  assumes "\<And>m. rec c m = Inr False"
  shows "hasany_child rec c memo = Inr False"
  by (simp add: hasany_child_def assms)

lemma hasany_loop_False:
  assumes "\<And>c m. c \<in> set cs \<Longrightarrow> rec c m = Inr False"
  shows "hasany_loop rec cs memo = Inr False"
  using assms by (induction cs) simp_all

lemma hasany_node_False:
  assumes "self \<notin> others" "\<And>c m. c \<in> set (children node) \<Longrightarrow> rec c m = Inr False"
  shows "hasany_node rec others node self memo = Inr False"
proof (cases node)
  case (Record contents base name)
  have "hasany_loop rec (map snd contents) memo = Inr False"
    by (rule hasany_loop_False) (use assms(2) Record in simp)
  with assms(1) Record show ?thesis
    by (simp add: hasany_node_def)
qed (use assms in \<open>simp_all add: hasany_node_def hasany_child_False hasany_loop_False\<close>)

lemma hasany_fresh_False:
  assumes "fresh_closed n0 (h :: 'r heap)" "\<forall>x \<in> required. x < n0"
  shows "n0 \<le> q \<Longrightarrow> q < next_id h \<Longrightarrow> q - n0 < k \<Longrightarrow> hasany k (nodes h) required q memo = Inr False"
proof (induction k arbitrary: q memo)
  case 0
  then show ?case by simp
next
  case (Suc k)
  from assms(2) Suc.prems(1) have nq: "q \<notin> required" by auto
  have ch: "\<And>c m. c \<in> set (children (nodes h q)) \<Longrightarrow> hasany k (nodes h) required c m = Inr False"
  proof -
    fix c m assume "c \<in> set (children (nodes h q))"
    with assms(1) Suc.prems(1,2) have c: "n0 \<le> c \<and> c < q"
      unfolding fresh_closed_def by blast
    with Suc.prems have "c < next_id h" "c - n0 < k" by linarith+
    with c show "hasany k (nodes h) required c m = Inr False"
      by (intro Suc.IH) simp_all
  qed
  show ?case
    by (simp add: hasany_node_False [OF nq ch])
qed

lemma record_projection_a:
  "projection (Suc (Suc (Suc 0))) {1} 0 record_heap empty_memo
     = Inr (Some 4, record_heap_projected, [1 \<mapsto> Some 3, 2 \<mapsto> None])"
  by (simp add: record_heap_def record_heap_projected_def empty_memo_def hasany_node_def
      projection_node_def Record_projection_def projection_child_def new_def fun_upd_twist)


text \<open>
  C7, as the code has it.  Let the required set hold only objects that exist when the
  projection starts.  When \<open>projection\<close> returns a node \<open>p\<close>, that node is a new object,
  not in the required set, and none of the nodes below it is; so \<open>p.hasany(required)\<close> is
  \<open>False\<close> and projecting \<open>p\<close> on the same required set returns \<open>None\<close> and builds
  nothing, as soon as the stack is deeper than the number of objects the first
  projection built.
\<close>

theorem projection_of_projection_is_None:
  assumes "projection depth required self h empty_memo = Inr (Some p, h', memo')"
    and "\<forall>x \<in> required. x < next_id h"
    and "p - next_id h < depth'"
  shows "next_id h \<le> p \<and> p < next_id h' \<and> p \<notin> required
       \<and> hasany depth' (nodes h') required p {} = Inr False
       \<and> projection (Suc depth') required p h' empty_memo = Inr (None, h', empty_memo)"
proof -
  have fc: "fresh_closed (next_id h) h" by (simp add: fresh_closed_def)
  have mf: "memo_fresh (next_id h) h empty_memo" by (simp add: memo_fresh_def empty_memo_def)
  from preserves_all [OF projection_preserves assms(1) fc mf]
  have fc': "fresh_closed (next_id h) h'" and p: "next_id h \<le> p" "p < next_id h'"
    by simp_all
  from assms(2) p(1) have nr: "p \<notin> required" by auto
  have hs: "hasany depth' (nodes h') required p {} = Inr False"
    by (rule hasany_fresh_False [OF fc' assms(2) p(1) p(2) assms(3)])
  then have "projection (Suc depth') required p h' empty_memo = Inr (None, h', empty_memo)"
    by (simp add: projection_node_def)
  with p nr hs show ?thesis by simp
qed

theorem projection_of_projection_is_None_witness:
  "projection (Suc (Suc (Suc 0))) {1} 0 record_heap empty_memo
     = Inr (Some 4, record_heap_projected, [1 \<mapsto> Some 3, 2 \<mapsto> None])
   \<and> 1 < next_id record_heap
   \<and> 4 - next_id record_heap < (2::nat)
   \<and> hasany 2 (nodes record_heap_projected) {1} 4 {} = Inr False
   \<and> projection (Suc 2) {1} 4 record_heap_projected empty_memo
       = Inr (None, record_heap_projected, empty_memo)"
proof -
  have h2: "\<forall>x \<in> {1::nat}. x < next_id record_heap" by (simp add: record_heap_def)
  have h3: "4 - next_id record_heap < (2::nat)" by (simp add: record_heap_def)
  from projection_of_projection_is_None [OF record_projection_a h2 h3] record_projection_a h2 h3
  show ?thesis by (simp add: record_heap_def)
qed


text \<open>
  C7, as stated, fails: projecting a primitive node on itself returns the new node 1, and
  projecting node 1 on the same required set returns \<open>None\<close>, which is not node 1.
\<close>

theorem projection_not_idempotent:
  "projection (Suc (Suc 0)) {0} 0 primitive_heap empty_memo
     = Inr (Some 1, primitive_heap_projected, empty_memo)
   \<and> projection (Suc (Suc 0)) {0} 1 primitive_heap_projected empty_memo
     = Inr (None, primitive_heap_projected, empty_memo)"
  by (simp add: primitive_heap_def primitive_heap_projected_def empty_memo_def hasany_node_def
      projection_node_def new_def)

section \<open>Masked rows\<close>

text \<open>
  C9.  Let the array that a resolved \<open>Primitive\<close>, \<open>ListStartEnd\<close>, \<open>UnionSparseOffset\<close> or
  \<open>Pointer\<close> checks carry a mask that flags the row \<open>index\<close> invalid.  Then \<open>proxy(index)\<close>
  returns \<open>None\<close>, whatever the data arrays hold at that row and whatever the children are.
  The \<open>Masked\<close> mix-ins of oamap do the same once the mask array, found by name, is true at
  the row: \<open>Masked.__new__\<close> and \<open>Masked._generate\<close> return \<open>None\<close> without calling the
  class they wrap.
\<close>

theorem masked_row_proxy_is_None:
  assumes "arr_mask a = Some m" and "getitem m index = Inr True"
  shows "(schema self = Primitive a masked base \<longrightarrow>
            proxy (Suc depth) schema self index = Inr PNone)
       \<and> (schema self = ListStartEnd a endarray contents masked base \<longrightarrow>
            proxy (Suc depth) schema self index = Inr PNone)
       \<and> (schema self = UnionSparseOffset a offsetarray possibilities masked base \<longrightarrow>
            proxy (Suc depth) schema self index = Inr PNone)
       \<and> (schema self = Pointer a target masked base \<longrightarrow>
            proxy (Suc depth) schema self index = Inr PNone)
       \<and> (arrays maskname = Some om \<and> getitem (o_data om) index = Inr b \<and> b \<noteq> 0 \<longrightarrow>
            Masked_new maskname new_base arrays index = Inr None)
       \<and> (getarray arrays maskname cache maskidx ''bool'' [] = Inr (om, cache1)
            \<and> getitem (o_data om) index = Inr b \<and> b \<noteq> 0 \<longrightarrow>
            Masked_generate maskname maskidx generate_base arrays index cache = Inr (None, cache1))"
proof -
  from assms have m: "masked_at a index = Inr True"
    by (simp add: masked_at_def)
  show ?thesis
    by (simp add: proxy_node_def m Masked_new_def Masked_generate_def)
qed

theorem masked_row_proxy_is_None_witness:
  "arr_mask masked_array = Some [False, True, False]
   \<and> getitem [False, True, False] 1 = Inr True
   \<and> getitem (arr_data masked_array) 1 = Inr 20
   \<and> proxy (Suc 0) (\<lambda>i. Primitive masked_array True None) 0 1 = Inr PNone
   \<and> proxy (Suc 0) (\<lambda>i. ListStartEnd masked_array masked_array 1 True None) 0 1 = Inr PNone
   \<and> proxy (Suc 0) (\<lambda>i. UnionSparseOffset masked_array masked_array [1] True None) 0 1 = Inr PNone
   \<and> proxy (Suc 0) (\<lambda>i. Pointer masked_array 1 True None) 0 1 = Inr PNone
   \<and> Masked_new ''mask'' (\<lambda>arrays index. Inr (Some (20::int))) masked_arrays 1 = Inr None
   \<and> Masked_generate ''mask'' 0 (\<lambda>arrays index cache. Inr (Some (20::int), cache)) masked_arrays 1 [None]
        = Inr (None, [Some \<lparr>o_data = [0, 1, 0], o_dtype = ''bool'', o_dims = []\<rparr>])"
proof -
  have h1: "arr_mask masked_array = Some [False, True, False]"
    by (simp add: masked_array_def)
  have h2: "getitem [False, True, False] 1 = Inr True"
    by (simp add: getitem_def)
  have h3: "getitem (arr_data masked_array) 1 = Inr 20"
    by (simp add: getitem_def masked_array_def)
  let ?om = "\<lparr>o_data = [0, 1, 0], o_dtype = ''bool'', o_dims = []\<rparr>"
  have o1: "masked_arrays ''mask'' = Some ?om \<and> getitem (o_data ?om) 1 = Inr 1 \<and> (1::int) \<noteq> 0"
    by (simp add: masked_arrays_def getitem_def)
  have o2: "getarray masked_arrays ''mask'' [None] 0 ''bool'' [] = Inr (?om, [Some ?om])
      \<and> getitem (o_data ?om) 1 = Inr 1 \<and> (1::int) \<noteq> 0"
    by (simp add: masked_arrays_def getarray_def getitem_def)
  note t = masked_row_proxy_is_None [OF h1 h2]
  from t [where schema = "\<lambda>i. Primitive masked_array True None" and self = 0
            and masked = True and base = None and depth = 0]
    t [where schema = "\<lambda>i. ListStartEnd masked_array masked_array 1 True None" and self = 0
            and endarray = masked_array and contents = 1 and masked = True and base = None and depth = 0]
    t [where schema = "\<lambda>i. UnionSparseOffset masked_array masked_array [1] True None" and self = 0
            and offsetarray = masked_array and possibilities = "[1]" and masked = True and base = None
            and depth = 0]
    t [where schema = "\<lambda>i. Pointer masked_array 1 True None" and self = 0
            and target = 1 and masked = True and base = None and depth = 0]
    t [where arrays = masked_arrays and maskname = "''mask''" and om = ?om and b = 1
            and new_base = "\<lambda>arrays index. Inr (Some (20::int))"
            and cache = "[None]" and maskidx = 0 and ?cache1.0 = "[Some ?om]"
            and generate_base = "\<lambda>arrays index cache. Inr (Some (20::int), cache)"]
    h1 h2 h3 o1 o2
  show ?thesis by simp
qed

section \<open>The flattener\<close>

lemma recurse_each_asserts:
  assumes "\<And>x name st. x \<in> set xs \<Longrightarrow> (rec x name st = Inl (AssertionError m)) = reach x name st"
  shows "(recurse_each rec xs name st = Inl (AssertionError m)) = reaches_each rec reach xs name st"
  using assms
proof (induction xs arbitrary: st)
  case Nil
  then show ?case by simp
next
  case (Cons x xs)
  have hd: "(rec x name st = Inl (AssertionError m)) = reach x name st"
    by (rule Cons.prems) simp
  have tl: "\<And>st1. (recurse_each rec xs name st1 = Inl (AssertionError m)) = reaches_each rec reach xs name st1"
    by (rule Cons.IH) (simp add: Cons.prems)
  show ?case
  proof (cases "rec x name st")
    case (Inl e)
    with hd show ?thesis by auto
  next
    case (Inr st1)
    with hd tl [of st1] show ?thesis by auto
  qed
qed

lemma first_tag_bound:
  "first_tag fits obj ts i = Some tag \<Longrightarrow> i \<le> tag \<and> tag < i + length ts"
proof (induction ts arbitrary: i)
  case Nil
  then show ?case by simp
next
  case (Cons t ts)
  show ?case
  proof (cases "fits obj t")
    case True
    with Cons.prems show ?thesis by simp
  next
    case False
    with Cons.prems have "first_tag fits obj ts (Suc i) = Some tag" by simp
    from Cons.IH [OF this] show ?thesis by simp
  qed
qed

lemma Record_recurse_asserts:
  assumes "\<And>fn t x name st. (fn, t) \<in> set fts \<Longrightarrow> (rec t x name st = Inl (AssertionError m)) = reach t x name st"
  shows "(Record_recurse (map (map_prod id rec) fts) obj name st = Inl (AssertionError m))
       = Record_reaches (map (map_prod id (\<lambda>t. (rec t, reach t))) fts) obj name st"
  using assms
proof (induction fts arbitrary: st)
  case Nil
  then show ?case by simp
next
  case (Cons ft fts)
  obtain fn t where ft: "ft = (fn, t)" by (cases ft)
  have hd: "\<And>x name st. (rec t x name st = Inl (AssertionError m)) = reach t x name st"
    by (rule Cons.prems [of fn t]) (simp add: ft)
  have tl: "\<And>st1. (Record_recurse (map (map_prod id rec) fts) obj name st1 = Inl (AssertionError m))
       = Record_reaches (map (map_prod id (\<lambda>t. (rec t, reach t))) fts) obj name st1"
  proof (rule Cons.IH)
    fix fn' t' x name' st'
    assume "(fn', t') \<in> set fts"
    then have "(fn', t') \<in> set (ft # fts)" by simp
    then show "(rec t' x name' st' = Inl (AssertionError m)) = reach t' x name' st'"
      by (rule Cons.prems)
  qed
  show ?case
  proof (cases "map_of (attributes obj) fn")
    case None
    then show ?thesis by (simp add: ft)
  next
    case (Some x)
    show ?thesis
    proof (cases "rec t x (toRecord name fn) st")
      case (Inl e)
      with Some hd [of x "toRecord name fn" st] show ?thesis
        unfolding ft id_def by auto
    next
      case (Inr st1)
      with Some hd [of x "toRecord name fn" st] tl [of st1] show ?thesis
        unfolding ft id_def by auto
    qed
  qed
qed


lemma recurse_asserts_iff_reaches:
  "(recurse contains fits tpe obj name st = Inl (AssertionError ''unexpected type object: {0}''))
     = reaches contains fits tpe obj name st"
proof (induction tpe arbitrary: obj name st)
  case (TPrimitive dtype)
  show ?case by (simp add: Primitive_recurse_def split: pyobj.splits)
next
  case (TList items)
  show ?case
  proof (cases "iterable obj")
    case None
    then show ?thesis by (simp add: List_recurse_def List_reaches_def)
  next
    case (Some xs)
    then show ?thesis
      by (simp add: List_recurse_def List_reaches_def Let_def recurse_each_asserts [OF TList.IH])
  qed
next
  case (TUnion possibilities)
  show ?case
  proof (cases "first_tag fits obj possibilities 0")
    case None
    then show ?thesis by (simp add: Union_recurse_def Union_reaches_def)
  next
    case (Some tag)
    from first_tag_bound [OF Some] have t: "tag < length possibilities" by simp
    then have "possibilities ! tag \<in> set possibilities" by simp
    note ih = TUnion.IH [OF this]
    from Some t show ?thesis
      by (simp add: Union_recurse_def Union_reaches_def Let_def ih)
  qed
next
  case (TRecord fts)
  have "\<And>fn t x name st. (fn, t) \<in> set fts \<Longrightarrow>
      (recurse contains fits t x name st = Inl (AssertionError ''unexpected type object: {0}''))
        = reaches contains fits t x name st"
  proof -
    fix fn t x name st assume "(fn, t) \<in> set fts"
    then show "(recurse contains fits t x name st = Inl (AssertionError ''unexpected type object: {0}''))
        = reaches contains fits t x name st"
      by (intro TRecord.IH [of "(fn, t)" t]) simp_all
  qed
  from Record_recurse_asserts [of fts "recurse contains fits" _ "reaches contains fits", OF this]
  show ?case by simp
next
  case (TOther cls)
  show ?case by simp
qed


lemma reaches_each_contains:
  assumes "reaches_each rec reach xs name st" "\<And>x name st. reach x name st \<Longrightarrow> P"
  shows P
  using assms
proof (induction xs arbitrary: st)
  case Nil
  then show ?case by simp
next
  case (Cons x xs)
  show ?case
  proof (cases "reach x name st")
    case True
    then show ?thesis by (rule Cons.prems(2))
  next
    case False
    with Cons.prems(1) obtain st1 where "reaches_each rec reach xs name st1"
      by (cases "rec x name st") auto
    then show ?thesis by (rule Cons.IH) (rule Cons.prems(2))
  qed
qed

lemma Record_reaches_contains:
  assumes "Record_reaches (map (map_prod id (\<lambda>t. (rec t, reach t))) fts) obj name st"
  shows "\<exists>fn t x name st. (fn, t) \<in> set fts \<and> reach t x name st"
  using assms
proof (induction fts arbitrary: st)
  case Nil
  then show ?case by simp
next
  case (Cons ft fts)
  obtain fn t where ft: "ft = (fn, t)" by (cases ft)
  from Cons.prems obtain x where x: "map_of (attributes obj) fn = Some x"
    unfolding ft by (cases "map_of (attributes obj) fn") auto
  show ?case
  proof (cases "reach t x (toRecord name fn) st")
    case True
    have "(fn, t) \<in> set (ft # fts)" by (simp add: ft)
    with True show ?thesis by blast
  next
    case False
    with Cons.prems x obtain st1 where
      "Record_reaches (map (map_prod id (\<lambda>t. (rec t, reach t))) fts) obj name st1"
      unfolding ft id_def by (cases "rec t x (toRecord name fn) st") auto
    from Cons.IH [OF this] obtain fn' t' x' name' st' where
      "(fn', t') \<in> set fts" "reach t' x' name' st'" by blast
    then have "(fn', t') \<in> set (ft # fts) \<and> reach t' x' name' st'" by simp
    then show ?thesis by blast
  qed
qed

lemma reaches_contains_other:
  "reaches contains fits tpe obj name st \<Longrightarrow> contains_other tpe"
proof (induction tpe arbitrary: obj name st)
  case (TPrimitive dtype)
  then show ?case by simp
next
  case (TList items)
  from TList.prems obtain xs st2 where
    "reaches_each (recurse contains fits items) (reaches contains fits items) xs (toListData name) st2"
    by (cases "iterable obj") (auto simp: List_reaches_def Let_def)
  then have "contains_other items"
    by (rule reaches_each_contains) (rule TList.IH)
  then show ?case by simp
next
  case (TUnion possibilities)
  from TUnion.prems obtain tag where tag: "first_tag fits obj possibilities 0 = Some tag"
    by (cases "first_tag fits obj possibilities 0") (auto simp: Union_reaches_def)
  from first_tag_bound [OF tag] have t: "tag < length possibilities" by simp
  then have m: "possibilities ! tag \<in> set possibilities" by simp
  from TUnion.prems tag t obtain st3 where
    "reaches contains fits (possibilities ! tag) obj (toUnionData name tag) st3"
    by (auto simp: Union_reaches_def Let_def)
  from TUnion.IH [OF m this] m show ?case
    by (auto simp: list_ex_iff)
next
  case (TRecord fts)
  from TRecord.prems have
    "Record_reaches (map (map_prod id (\<lambda>t. (recurse contains fits t, reaches contains fits t))) fts)
       obj name st" by simp
  from Record_reaches_contains [OF this] obtain fn t x name' st' where
    m: "(fn, t) \<in> set fts" and r: "reaches contains fits t x name' st'" by blast
  have "contains_other t"
    by (rule TRecord.IH [of "(fn, t)" t, OF m _ r]) simp
  with m show ?case
    by (force simp: list_ex_iff)
next
  case (TOther cls)
  show ?case by simp
qed

text \<open>
  C10.  For every type, object, array name and state, the walk fails with the assertion
  error \<open>unexpected type object\<close> exactly when it reaches a type object that is none of
  \<open>Primitive\<close>, \<open>List\<close>, \<open>Union\<close> and \<open>Record\<close>, however deep that node lies below lists,
  unions and records and whatever was walked before it; so no value whose walk reaches
  such a node is flattened.  Only a type that contains such a node can be reached so: on
  a type built from the four classes alone the walk never raises this error.
\<close>

theorem recurse_asserts_iff_reaches_other:
  "((recurse contains fits tpe obj name st = Inl (AssertionError ''unexpected type object: {0}''))
      = reaches contains fits tpe obj name st)
   \<and> (reaches contains fits tpe obj name st \<longrightarrow> contains_other tpe)
   \<and> (\<not> contains_other tpe \<longrightarrow>
        recurse contains fits tpe obj name st \<noteq> Inl (AssertionError ''unexpected type object: {0}''))"
  using recurse_asserts_iff_reaches [of contains fits tpe obj name st]
    reaches_contains_other [of contains fits tpe obj name st]
  by blast

text \<open>
  The walk of a record reaches the \<open>Tuple\<close> in its second field, inside a list, a union and
  a record, after the first field has been filled; a type that is a \<open>Tuple\<close> fails at once.
\<close>

theorem recurse_asserts_iff_reaches_other_witness:
  "reaches any_number any_fits int_or_tuple_schema int_or_tuple_value [] initial_fstate
   \<and> contains_other int_or_tuple_schema
   \<and> recurse any_number any_fits int_or_tuple_schema int_or_tuple_value [] initial_fstate
       = Inl (AssertionError ''unexpected type object: {0}'')
   \<and> toarrays any_number any_fits int_or_tuple_value int_or_tuple_schema
       = Inl (AssertionError ''unexpected type object: {0}'')
   \<and> toarrays any_number any_fits (Seq [Num 2, Num 3]) (TOther ''Tuple'')
       = Inl (AssertionError ''unexpected type object: {0}'')"
proof -
  have r: "reaches any_number any_fits int_or_tuple_schema int_or_tuple_value [] initial_fstate"
    by (simp add: int_or_tuple_schema_def int_or_tuple_value_def List_reaches_def Union_reaches_def
        Primitive_recurse_def any_number_def any_fits_def Let_def)
  have o: "reaches any_number any_fits (TOther ''Tuple'') (Seq [Num 2, Num 3]) [] initial_fstate"
    by simp
  from r o
    recurse_asserts_iff_reaches_other [of any_number any_fits int_or_tuple_schema int_or_tuple_value
      "[]" initial_fstate]
    recurse_asserts_iff_reaches_other [of any_number any_fits "TOther ''Tuple''" "Seq [Num 2, Num 3]"
      "[]" initial_fstate]
  show ?thesis by (simp add: toarrays_def)

qed

end
